theory Spec2Isabelle
  imports Main
begin

section \<open>Python strings and values\<close>


definition ascii_lowercase :: string where
  "ascii_lowercase = ''abcdefghijklmnopqrstuvwxyz''"

definition ascii_uppercase :: string where
  "ascii_uppercase = ''ABCDEFGHIJKLMNOPQRSTUVWXYZ''"

definition islower :: "char \<Rightarrow> bool" where
  "islower c = (c \<in> set ascii_lowercase)"

definition isupper :: "char \<Rightarrow> bool" where
  "isupper c = (c \<in> set ascii_uppercase)"


definition upper :: "char \<Rightarrow> char" where
  "upper c = (case map_of (zip ascii_lowercase ascii_uppercase) c of Some u \<Rightarrow> u | None \<Rightarrow> c)"

definition lower :: "char \<Rightarrow> char" where
  "lower c = (case map_of (zip ascii_uppercase ascii_lowercase) c of Some l \<Rightarrow> l | None \<Rightarrow> c)"

text \<open>
  \<open>str.title()\<close> on an ASCII string: one pass that remembers whether the previous
  character was cased. A lowercase letter after an uncased character is raised, an
  uppercase letter after a cased one is lowered, an uncased character is kept and resets
  the memory. On a string that is not ASCII the result of Python's \<open>str.title\<close> can differ
  (it can even change the length), so \<open>str_title\<close> stands for it on ASCII strings only.
\<close>

fun title_from :: "bool \<Rightarrow> string \<Rightarrow> string" where
  "title_from previous_is_cased [] = []"
| "title_from previous_is_cased (c # cs) =
     (if islower c then (if previous_is_cased then c else upper c) # title_from True cs
      else if isupper c then (if previous_is_cased then lower c else c) # title_from True cs
      else c # title_from False cs)"

definition str_title :: "string \<Rightarrow> string" where
  "str_title s = title_from False s"

text \<open>\<open>str.replace(old, new)\<close> for one-character arguments.\<close>

definition str_replace :: "string \<Rightarrow> char \<Rightarrow> char \<Rightarrow> string" where
  "str_replace s old new = map (\<lambda>c. if c = old then new else c) s"

text \<open>
  \<open>str.split(sep)\<close> for a one-character separator: the pieces between the separators,
  empty pieces kept, so the empty string splits into one empty piece.
\<close>

fun split_acc :: "char \<Rightarrow> string \<Rightarrow> string \<Rightarrow> string list" where
  "split_acc sep acc [] = [rev acc]"
| "split_acc sep acc (c # cs) =
     (if c = sep then rev acc # split_acc sep [] cs else split_acc sep (c # acc) cs)"

definition str_split :: "string \<Rightarrow> char \<Rightarrow> string list" where
  "str_split s sep = split_acc sep [] s"

text \<open>
  \<open>os.getenv(name, default)\<close> on a variable that is unset (\<open>None\<close>) or set.
\<close>

definition getenv :: "string option \<Rightarrow> string \<Rightarrow> string" where
  "getenv var dflt = (case var of None \<Rightarrow> dflt | Some v \<Rightarrow> v)"

text \<open>
  \<open>x or default\<close> on a nullable string: \<open>None\<close> and the empty string are falsy.
  \<open>fstr\<close> is what an f-string prints for a nullable string.
\<close>

definition truthy :: "string option \<Rightarrow> bool" where
  "truthy x = (case x of None \<Rightarrow> False | Some s \<Rightarrow> s \<noteq> [])"

definition or_default :: "string option \<Rightarrow> string \<Rightarrow> string" where
  "or_default x dflt = (case x of None \<Rightarrow> dflt | Some s \<Rightarrow> if s = [] then dflt else s)"

definition fstr :: "string option \<Rightarrow> string" where
  "fstr x = (case x of None \<Rightarrow> ''None'' | Some s \<Rightarrow> s)"

datatype py_error = AttributeError | KeyError

section \<open>The store\<close>

text \<open>
  Time points are integers counting seconds. The tables are row lists; a column that the
  worker itself treats as nullable is an option. Primary and foreign keys are owned by
  the store: where a statement needs them it says so as a hypothesis.
\<close>

type_synonym timestamp = int

record shipment =
  shipment_id :: nat
  booking_number :: string
  container_number :: "string option"
  vessel_name :: "string option"
  current_milestone :: "string option"
  current_status :: string
  updated_at :: timestamp

record milestone =
  milestone_id :: nat
  m_shipment_id :: nat
  milestone_name :: "string option"
  milestone_status :: string
  actual_date :: "timestamp option"
  location :: "string option"
  m_notes :: "string option"
  notification_sent :: bool

record exception_row =
  exception_id :: nat
  e_shipment_id :: nat
  exception_type :: "string option"
  severity :: "string option"
  title :: "string option"
  description :: "string option"
  status :: string
  created_at :: timestamp

record document =
  document_id :: nat
  d_created_at :: timestamp

record store =
  shipments :: "shipment list"
  milestones :: "milestone list"
  exceptions :: "exception_row list"
  documents :: "document list"

definition interval_15_minutes :: int where
  "interval_15_minutes = 15 * 60"

text \<open>The SQL condition \<open>t > NOW() - INTERVAL '15 minutes'\<close>; a NULL date never passes.\<close>

definition after_cutoff :: "timestamp \<Rightarrow> timestamp \<Rightarrow> bool" where
  "after_cutoff now t = (now - interval_15_minutes < t)"

definition date_after_cutoff :: "timestamp \<Rightarrow> timestamp option \<Rightarrow> bool" where
  "date_after_cutoff now d = (case d of None \<Rightarrow> False | Some t \<Rightarrow> after_cutoff now t)"

text \<open>\<open>DATE(t)\<close>: the number of the calendar day that holds \<open>t\<close>.\<close>

definition DATE :: "timestamp \<Rightarrow> int" where
  "DATE t = t div 86400"

section \<open>Configuration, messages and the mail relay\<close>

text \<open>
  The environment of the process: the variables the service reads, the library's
  \<open>strftime\<close> (format first), and the mail relay. The relay decides each delivery
  attempt from the number of attempts made before it and the message, so it may accept
  or refuse any attempt; \<open>send_email\<close> turns every failure into the result \<open>False\<close>.
\<close>

record milestone_html =
  mh_milestone :: string
  mh_booking_number :: string
  mh_container_number :: string
  mh_vessel :: string
  mh_date_time :: string
  mh_location :: "string option"
  mh_notes :: "string option"
  mh_year :: string

record exception_html =
  eh_header_color :: string
  eh_severity :: string
  eh_title :: string
  eh_description :: string
  eh_exception_type :: string
  eh_booking_number :: string
  eh_container :: string
  eh_vessel :: string
  eh_reported :: string

record summary_html =
  sh_date :: string
  sh_active :: nat
  sh_milestones_today :: nat
  sh_docs_today :: nat
  sh_open_exceptions :: nat
  sh_shipments :: "(string \<times> string \<times> string) list"

text \<open>
  An HTML body is kept as the values its template interpolates, in the template's order;
  the fixed text and style sheet between them are left out.
\<close>

datatype html = MilestoneHtml milestone_html | ExceptionHtml exception_html
  | SummaryHtml summary_html

record message =
  msg_From :: string
  msg_To :: "string list"
  msg_Subject :: string
  html_part :: html

record environment =
  VHC_EMAILS :: "string option"
  ESCALATION_EMAILS :: "string option"
  SMTP_FROM :: "string option"
  strftime :: "string \<Rightarrow> timestamp \<Rightarrow> string"
  smtp :: "nat \<Rightarrow> message \<Rightarrow> bool"

definition vhc_recipients :: "environment \<Rightarrow> string list" where
  "vhc_recipients env = str_split (getenv (VHC_EMAILS env) ''vhc-team@example.com'') (CHR '','')"

definition from_email :: "environment \<Rightarrow> string" where
  "from_email env = getenv (SMTP_FROM env) ''notifications@seaironline.com''"

text \<open>
  The worker's state: the store and the log of delivery attempts, each with the relay's
  answer (what \<open>send_email\<close> returned).
\<close>

record worker =
  db :: store
  outbox :: "(message \<times> bool) list"

definition send_email :: "environment \<Rightarrow> string list \<Rightarrow> string \<Rightarrow> html \<Rightarrow> worker \<Rightarrow> bool \<times> worker" where
  "send_email env recipients subject html_content w =
     (let msg = \<lparr>msg_From = from_email env, msg_To = recipients, msg_Subject = subject,
                 html_part = html_content\<rparr>;
          ok = smtp env (length (outbox w)) msg
      in (ok, w\<lparr>outbox := outbox w @ [(msg, ok)]\<rparr>))"

section \<open>Milestone notifications\<close>

definition format_milestone_name :: "string option \<Rightarrow> string" where
  "format_milestone_name name =
     (case name of None \<Rightarrow> ''N/A''
      | Some n \<Rightarrow> if n = [] then ''N/A'' else str_title (str_replace n (CHR ''_'') (CHR '' '')))"

text \<open>
  The poll query. A result row is the milestone with the shipment it joins; the dates of
  the rows that pass the condition are not NULL, so the sort key of a NULL date is never
  used. Rows with equal dates stay in table order.
\<close>

definition milestone_due :: "timestamp \<Rightarrow> milestone \<Rightarrow> bool" where
  "milestone_due now m =
     (notification_sent m = False \<and> milestone_status m = ''COMPLETED''
      \<and> date_after_cutoff now (actual_date m))"

definition date_desc :: "timestamp option \<Rightarrow> int" where
  "date_desc d = (case d of None \<Rightarrow> 0 | Some t \<Rightarrow> - t)"

definition new_milestones :: "timestamp \<Rightarrow> store \<Rightarrow> (milestone \<times> shipment) list" where
  "new_milestones now d =
     sort_key (\<lambda>(m, s). date_desc (actual_date m))
       (concat (map (\<lambda>m. map (\<lambda>s. (m, s))
                              (filter (\<lambda>s. m_shipment_id m = shipment_id s) (shipments d)))
                    (filter (milestone_due now) (milestones d))))"

definition milestone_subject :: "milestone \<times> shipment \<Rightarrow> string" where
  "milestone_subject row =
     ''Milestone Update: '' @ format_milestone_name (milestone_name (fst row)) @ '' - ''
       @ booking_number (snd row)"

text \<open>
  The body calls \<open>strftime\<close> on the row's date, which raises on \<open>None\<close>; the body takes
  the date it formats.
\<close>

definition milestone_body :: "environment \<Rightarrow> timestamp \<Rightarrow> milestone \<times> shipment \<Rightarrow> timestamp \<Rightarrow> html" where
  "milestone_body env now row t =
     MilestoneHtml \<lparr>
       mh_milestone = format_milestone_name (milestone_name (fst row)),
       mh_booking_number = booking_number (snd row),
       mh_container_number = or_default (container_number (snd row)) ''Pending'',
       mh_vessel = or_default (vessel_name (snd row)) ''N/A'',
       mh_date_time = strftime env ''%Y-%m-%d %H:%M UTC'' t,
       mh_location = (if truthy (location (fst row)) then location (fst row) else None),
       mh_notes = (if truthy (m_notes (fst row)) then m_notes (fst row) else None),
       mh_year = strftime env ''%Y'' now\<rparr>"

definition send_milestone_notification :: "environment \<Rightarrow> timestamp \<Rightarrow> milestone \<times> shipment \<Rightarrow> worker \<Rightarrow> py_error + worker" where
  "send_milestone_notification env now row w =
     (case actual_date (fst row) of
        None \<Rightarrow> Inl AttributeError
      | Some t \<Rightarrow> Inr (snd (send_email env (vhc_recipients env) (milestone_subject row)
                                (milestone_body env now row t) w)))"

text \<open>\<open>UPDATE milestones SET notification_sent = TRUE WHERE milestone_id = k\<close>\<close>

definition mark_notified :: "nat \<Rightarrow> store \<Rightarrow> store" where
  "mark_notified k d =
     d\<lparr>milestones := map (\<lambda>m. if milestone_id m = k then m\<lparr>notification_sent := True\<rparr> else m)
                            (milestones d)\<rparr>"

text \<open>
  The loop over the fetched rows: send, then mark and commit, whatever the send returned.
  An exception leaves the loop; the handler rolls back, and since every update was
  committed in its own iteration the store stays as the last iteration left it.
\<close>

fun notify_rows :: "environment \<Rightarrow> timestamp \<Rightarrow> (milestone \<times> shipment) list \<Rightarrow> worker \<Rightarrow> worker" where
  "notify_rows env now [] w = w"
| "notify_rows env now (row # rows) w =
     (case send_milestone_notification env now row w of
        Inl e \<Rightarrow> w
      | Inr w1 \<Rightarrow>
          notify_rows env now rows (w1\<lparr>db := mark_notified (milestone_id (fst row)) (db w1)\<rparr>))"

definition check_new_milestones :: "environment \<Rightarrow> timestamp \<Rightarrow> worker \<Rightarrow> worker" where
  "check_new_milestones env now w = notify_rows env now (new_milestones now (db w)) w"

section \<open>Exception alerts\<close>

definition exception_due :: "timestamp \<Rightarrow> exception_row \<Rightarrow> bool" where
  "exception_due now e = (after_cutoff now (created_at e) \<and> status e = ''OPEN'')"

definition open_exceptions :: "timestamp \<Rightarrow> store \<Rightarrow> (exception_row \<times> shipment) list" where
  "open_exceptions now d =
     concat (map (\<lambda>e. map (\<lambda>s. (e, s))
                           (filter (\<lambda>s. e_shipment_id e = shipment_id s) (shipments d)))
                 (filter (exception_due now) (exceptions d)))"

definition severity_colors :: "string \<rightharpoonup> string" where
  "severity_colors = map_of [(''LOW'', ''#3b82f6''), (''MEDIUM'', ''#f59e0b''),
                             (''HIGH'', ''#ef4444''), (''CRITICAL'', ''#dc2626'')]"

definition header_color :: "string option \<Rightarrow> string" where
  "header_color sev =
     (case sev of None \<Rightarrow> ''#ef4444''
      | Some v \<Rightarrow> (case severity_colors v of None \<Rightarrow> ''#ef4444'' | Some c \<Rightarrow> c))"

text \<open>The subject starts with the four bytes of U+1F6A8 in UTF-8.\<close>

definition exception_subject :: "exception_row \<times> shipment \<Rightarrow> string" where
  "exception_subject row =
     [CHR 0xF0, CHR 0x9F, CHR 0x9A, CHR 0xA8] @ '' Exception Alert [''
       @ fstr (severity (fst row)) @ '']: '' @ fstr (title (fst row)) @ '' - ''
       @ booking_number (snd row)"

definition exception_body :: "environment \<Rightarrow> exception_row \<times> shipment \<Rightarrow> html" where
  "exception_body env row =
     ExceptionHtml \<lparr>
       eh_header_color = header_color (severity (fst row)),
       eh_severity = fstr (severity (fst row)),
       eh_title = fstr (title (fst row)),
       eh_description = or_default (description (fst row)) ''No additional details provided'',
       eh_exception_type = fstr (exception_type (fst row)),
       eh_booking_number = booking_number (snd row),
       eh_container = or_default (container_number (snd row)) ''Pending'',
       eh_vessel = or_default (vessel_name (snd row)) ''N/A'',
       eh_reported = strftime env ''%Y-%m-%d %H:%M UTC'' (created_at (fst row))\<rparr>"

text \<open>
  The recipients of an alert: a copy of the base list, extended for the two escalating
  severities by the non-empty pieces of \<open>ESCALATION_EMAILS\<close>.
\<close>

definition alert_recipients :: "environment \<Rightarrow> string option \<Rightarrow> string list" where
  "alert_recipients env sev =
     (let recipients = vhc_recipients env
      in if sev \<in> {Some ''HIGH'', Some ''CRITICAL''}
         then (let escalation = str_split (getenv (ESCALATION_EMAILS env) []) (CHR '','')
               in recipients @ filter (\<lambda>e. e \<noteq> []) escalation)
         else recipients)"

definition send_exception_alert :: "environment \<Rightarrow> exception_row \<times> shipment \<Rightarrow> worker \<Rightarrow> worker" where
  "send_exception_alert env row w =
     snd (send_email env (alert_recipients env (severity (fst row))) (exception_subject row)
            (exception_body env row) w)"

fun alert_rows :: "environment \<Rightarrow> (exception_row \<times> shipment) list \<Rightarrow> worker \<Rightarrow> worker" where
  "alert_rows env [] w = w"
| "alert_rows env (row # rows) w = alert_rows env rows (send_exception_alert env row w)"

definition check_exceptions :: "environment \<Rightarrow> timestamp \<Rightarrow> worker \<Rightarrow> worker" where
  "check_exceptions env now w = alert_rows env (open_exceptions now (db w)) w"

section \<open>Daily summary\<close>

record stats =
  active :: nat
  milestones_today :: nat
  open_exceptions_count :: nat
  docs_today :: nat

definition CURRENT_DATE :: "timestamp \<Rightarrow> int" where
  "CURRENT_DATE now = DATE now"

definition daily_stats :: "timestamp \<Rightarrow> store \<Rightarrow> stats" where
  "daily_stats now d =
     \<lparr>active = length (filter (\<lambda>s. current_status s \<noteq> ''COMPLETED'') (shipments d)),
      milestones_today =
        length (filter (\<lambda>m. case actual_date m of None \<Rightarrow> False
                             | Some t \<Rightarrow> DATE t = CURRENT_DATE now) (milestones d)),
      open_exceptions_count = length (filter (\<lambda>e. status e \<noteq> ''RESOLVED'') (exceptions d)),
      docs_today = length (filter (\<lambda>x. DATE (d_created_at x) = CURRENT_DATE now) (documents d))\<rparr>"

text \<open>\<open>ORDER BY updated_at DESC LIMIT 10\<close> over the shipments that are not completed.\<close>

definition recent_shipments :: "store \<Rightarrow> shipment list" where
  "recent_shipments d =
     take 10 (sort_key (\<lambda>s. - updated_at s)
                (filter (\<lambda>s. current_status s \<noteq> ''COMPLETED'') (shipments d)))"

definition shipment_tr :: "shipment \<Rightarrow> string \<times> string \<times> string" where
  "shipment_tr s =
     (booking_number s, or_default (container_number s) ''Pending'',
      format_milestone_name (current_milestone s))"

definition send_daily_summary_email :: "environment \<Rightarrow> timestamp \<Rightarrow> stats \<Rightarrow> shipment list \<Rightarrow> worker \<Rightarrow> worker" where
  "send_daily_summary_email env now st ships w =
     (let subject = ''Daily Shipment Summary - '' @ strftime env ''%Y-%m-%d'' now;
          shipments_html = map shipment_tr ships;
          html_content = SummaryHtml \<lparr>
            sh_date = strftime env ''%B %d, %Y'' now,
            sh_active = active st,
            sh_milestones_today = milestones_today st,
            sh_docs_today = docs_today st,
            sh_open_exceptions = open_exceptions_count st,
            sh_shipments = shipments_html\<rparr>
      in snd (send_email env (vhc_recipients env) subject html_content w))"

definition send_daily_summary :: "environment \<Rightarrow> timestamp \<Rightarrow> worker \<Rightarrow> worker" where
  "send_daily_summary env now w =
     send_daily_summary_email env now (daily_stats now (db w)) (recent_shipments (db w)) w"

section \<open>The service loop\<close>

text \<open>
  \<open>run\<close> registers the three jobs, runs the two checks at once and then loops for ever,
  starting whatever job is due, one after another. A finite part of that loop is the
  list of the jobs started with the time of each; \<open>run\<close> itself never returns.
\<close>

datatype job = Check_new_milestones | Check_exceptions | Send_daily_summary

fun run_job :: "environment \<Rightarrow> job \<times> timestamp \<Rightarrow> worker \<Rightarrow> worker" where
  "run_job env (Check_new_milestones, now) w = check_new_milestones env now w"
| "run_job env (Check_exceptions, now) w = check_exceptions env now w"
| "run_job env (Send_daily_summary, now) w = send_daily_summary env now w"

fun run_pending :: "environment \<Rightarrow> (job \<times> timestamp) list \<Rightarrow> worker \<Rightarrow> worker" where
  "run_pending env [] w = w"
| "run_pending env (j # js) w = run_pending env js (run_job env j w)"

definition run :: "environment \<Rightarrow> timestamp \<Rightarrow> timestamp \<Rightarrow> (job \<times> timestamp) list \<Rightarrow> worker \<Rightarrow> worker" where
  "run env t0 t1 js w =
     run_pending env ((Check_new_milestones, t0) # (Check_exceptions, t1) # js) w"

section \<open>API handlers\<close>

text \<open>
  A handler is modelled up to its first statement on the store: it answers with a status
  and an error text, raises (the framework answers 500 to an exception no handler
  catches), or goes on to the store. The request carries the identity of a valid token,
  if it has one, the JSON object of its body, and the form fields and file names of a
  multipart upload.
\<close>

datatype json = JNull | JBool bool | JNum int | JStr string | JArr "json list"
  | JObj "(string \<times> json) list"

record identity =
  id_role :: string
  id_email :: string

record request =
  jwt_identity :: "identity option"
  get_json :: "string \<rightharpoonup> json"
  form :: "string \<rightharpoonup> string"
  files :: "string \<rightharpoonup> string"

datatype outcome = Response nat string | Unhandled py_error | Proceeds

definition status_code :: "outcome \<Rightarrow> nat option" where
  "status_code r = (case r of Response c msg \<Rightarrow> Some c | Unhandled e \<Rightarrow> Some 500
                    | Proceeds \<Rightarrow> None)"

text \<open>
  \<open>data.get(k)\<close>, with \<open>JNull\<close> for Python's \<open>None\<close>; \<open>data[k]\<close>, which raises on a
  missing key; and the truth value Python gives a decoded JSON value.
\<close>

definition dict_get :: "(string \<rightharpoonup> json) \<Rightarrow> string \<Rightarrow> json" where
  "dict_get data k = (case data k of None \<Rightarrow> JNull | Some v \<Rightarrow> v)"

definition dict_item :: "(string \<rightharpoonup> json) \<Rightarrow> string \<Rightarrow> py_error + json" where
  "dict_item data k = (case data k of None \<Rightarrow> Inl KeyError | Some v \<Rightarrow> Inr v)"

fun bool_of :: "json \<Rightarrow> bool" where
  "bool_of JNull = False"
| "bool_of (JBool b) = b"
| "bool_of (JNum n) = (n \<noteq> 0)"
| "bool_of (JStr s) = (s \<noteq> [])"
| "bool_of (JArr xs) = (xs \<noteq> [])"
| "bool_of (JObj kvs) = (kvs \<noteq> [])"

definition jwt_required :: "request \<Rightarrow> outcome \<Rightarrow> outcome" where
  "jwt_required req view =
     (case jwt_identity req of None \<Rightarrow> Response 401 ''Missing Authorization Header''
      | Some u \<Rightarrow> view)"

definition role_required :: "string list \<Rightarrow> request \<Rightarrow> outcome \<Rightarrow> outcome" where
  "role_required allowed_roles req view =
     (case jwt_identity req of None \<Rightarrow> Response 401 ''Missing Authorization Header''
      | Some current_user \<Rightarrow>
          if id_role current_user \<notin> set allowed_roles then Response 403 ''Unauthorized access''
          else view)"

definition missing_fields :: "string list \<Rightarrow> (string \<rightharpoonup> json) \<Rightarrow> bool" where
  "missing_fields required_fields data = (\<not> list_all (\<lambda>field. data field \<noteq> None) required_fields)"

definition login :: "request \<Rightarrow> outcome" where
  "login req =
     (let data = get_json req;
          email = dict_get data ''email'';
          password = dict_get data ''password''
      in if \<not> bool_of email \<or> \<not> bool_of password
         then Response 400 ''Email and password required''
         else Proceeds)"

definition register_user :: "request \<Rightarrow> outcome" where
  "register_user req =
     role_required [''ADMIN''] req
       (if missing_fields [''email'', ''password'', ''full_name'', ''role''] (get_json req)
        then Response 400 ''Missing required fields''
        else Proceeds)"

definition create_shipment :: "request \<Rightarrow> outcome" where
  "create_shipment req =
     role_required [''SEAIR_ORIGIN'', ''ADMIN''] req
       (if missing_fields [''booking_number''] (get_json req)
        then Response 400 ''Missing required fields''
        else Proceeds)"

definition update_milestone :: "nat \<Rightarrow> request \<Rightarrow> outcome" where
  "update_milestone sid req =
     role_required [''SEAIR_ORIGIN'', ''SEAIR_US'', ''ADMIN''] req
       (let milestone_name = dict_get (get_json req) ''milestone_name''
        in if \<not> bool_of milestone_name then Response 400 ''milestone_name required''
           else Proceeds)"

definition ALLOWED_EXTENSIONS :: "string set" where
  "ALLOWED_EXTENSIONS = {''pdf'', ''xlsx'', ''xls'', ''doc'', ''docx'', ''jpg'', ''jpeg'', ''png''}"

text \<open>The text after the last dot, lowered, is an allowed extension.\<close>

definition allowed_file :: "string \<Rightarrow> bool" where
  "allowed_file filename =
     (CHR ''.'' \<in> set filename
      \<and> map lower (rev (takeWhile (\<lambda>c. c \<noteq> CHR ''.'') (rev filename))) \<in> ALLOWED_EXTENSIONS)"

definition upload_document :: "nat \<Rightarrow> request \<Rightarrow> outcome" where
  "upload_document sid req =
     jwt_required req
       (case files req ''file'' of
          None \<Rightarrow> Response 400 ''No file provided''
        | Some filename \<Rightarrow>
            if \<not> truthy (form req ''document_type'') then Response 400 ''document_type required''
            else if filename = [] then Response 400 ''No file selected''
            else if allowed_file filename then Proceeds
            else Response 400 ''Invalid file type'')"

definition create_invoice :: "request \<Rightarrow> outcome" where
  "create_invoice req =
     role_required [''SEAIR_US'', ''ADMIN''] req
       (if missing_fields [''shipment_id'', ''invoice_number'', ''total_amount''] (get_json req)
        then Response 400 ''Missing required fields''
        else Proceeds)"

text \<open>
  \<open>create_exception\<close> checks nothing: the parameters of its insert are evaluated in
  order, and \<open>data['title']\<close> is the one subscript among them.
\<close>

definition create_exception :: "nat \<Rightarrow> request \<Rightarrow> outcome" where
  "create_exception sid req =
     role_required [''SEAIR_ORIGIN'', ''SEAIR_US'', ''ADMIN''] req
       (let data = get_json req;
            p_exception_type = dict_get data ''exception_type'';
            p_severity = (case data ''severity'' of None \<Rightarrow> JStr ''MEDIUM'' | Some v \<Rightarrow> v)
        in case dict_item data ''title'' of
             Inl e \<Rightarrow> Unhandled e
           | Inr p_title \<Rightarrow> Proceeds)"

section \<open>Sample data\<close>

text \<open>
  A small configuration and a few rows, used to run the definitions on concrete inputs.
  The sample relay refuses every delivery.
\<close>

definition example_env :: environment where
  "example_env = \<lparr>VHC_EMAILS = Some ''ops@vhc.example,desk@vhc.example'',
                  ESCALATION_EMAILS = Some ''chief@vhc.example,,duty@vhc.example'',
                  SMTP_FROM = None,
                  strftime = (\<lambda>fmt t. fmt),
                  smtp = (\<lambda>n msg. False)\<rparr>"

definition example_shipment :: shipment where
  "example_shipment = \<lparr>shipment_id = 1, booking_number = ''BK1001'', container_number = None,
                       vessel_name = Some ''Ever Given'',
                       current_milestone = Some ''VESSEL_DEPARTED'',
                       current_status = ''IN_TRANSIT'', updated_at = 5000\<rparr>"

definition example_exception :: "string \<Rightarrow> exception_row" where
  "example_exception sev = \<lparr>exception_id = 1, e_shipment_id = 1, exception_type = Some ''DELAY'',
                            severity = Some sev, title = Some ''Port strike'',
                            description = None, status = ''OPEN'', created_at = 9500\<rparr>"

definition empty_worker :: worker where
  "empty_worker = \<lparr>db = \<lparr>shipments = [], milestones = [], exceptions = [], documents = []\<rparr>,
                   outbox = []\<rparr>"

text \<open>
  A request from an authorised user whose body gives a severity and no title.
\<close>

definition example_request :: request where
  "example_request =
     \<lparr>jwt_identity = Some \<lparr>id_role = ''SEAIR_US'', id_email = ''agent@seair.example''\<rparr>,
      get_json = [''severity'' \<mapsto> JStr ''HIGH''],
      form = Map.empty,
      files = Map.empty\<rparr>"

definition example_milestone :: milestone where
  "example_milestone = \<lparr>milestone_id = 7, m_shipment_id = 1,
                        milestone_name = Some ''VESSEL_DEPARTED'',
                        milestone_status = ''COMPLETED'', actual_date = Some 9700,
                        location = None, m_notes = None, notification_sent = False\<rparr>"

definition stale_milestone :: milestone where
  "stale_milestone = example_milestone\<lparr>milestone_id := 8, actual_date := Some 9000\<rparr>"

definition future_milestone :: milestone where
  "future_milestone = example_milestone\<lparr>milestone_id := 9, actual_date := Some 20000\<rparr>"

definition example_store :: store where
  "example_store = \<lparr>shipments = [example_shipment],
                    milestones = [example_milestone, stale_milestone],
                    exceptions = [example_exception ''CRITICAL''],
                    documents = []\<rparr>"

definition example_worker :: worker where
  "example_worker = \<lparr>db = example_store, outbox = []\<rparr>"

definition future_store :: store where
  "future_store = \<lparr>shipments = [example_shipment], milestones = [future_milestone],
                   exceptions = [], documents = []\<rparr>"


section \<open>Vocabulary of the statements\<close>

text \<open>
  The store after the update statement has run for each identifier of a set, and the
  message that \<open>send_milestone_notification\<close> builds for a row whose date is \<open>t\<close>.
\<close>

definition mark_all_notified :: "nat set \<Rightarrow> store \<Rightarrow> store" where
  "mark_all_notified ks d =
     d\<lparr>milestones := map (\<lambda>m. if milestone_id m \<in> ks then m\<lparr>notification_sent := True\<rparr> else m)
                            (milestones d)\<rparr>"

definition milestone_message :: "environment \<Rightarrow> timestamp \<Rightarrow> milestone \<times> shipment \<Rightarrow> timestamp \<Rightarrow> message" where
  "milestone_message env now row t =
     \<lparr>msg_From = from_email env, msg_To = vhc_recipients env,
      msg_Subject = milestone_subject row, html_part = milestone_body env now row t\<rparr>"

text \<open>The message that \<open>send_exception_alert\<close> builds for a row.\<close>

definition exception_message :: "environment \<Rightarrow> exception_row \<times> shipment \<Rightarrow> message" where
  "exception_message env row =
     \<lparr>msg_From = from_email env, msg_To = alert_recipients env (severity (fst row)),
      msg_Subject = exception_subject row, html_part = exception_body env row\<rparr>"

text \<open>
  The rows that the milestone checks of a job list fetch, one poll after another.
\<close>

fun polled_rows :: "environment \<Rightarrow> (job \<times> timestamp) list \<Rightarrow> worker \<Rightarrow> (milestone \<times> shipment) list" where
  "polled_rows env [] w = []"
| "polled_rows env (j # js) w =
     (if fst j = Check_new_milestones then new_milestones (snd j) (db w) else [])
     @ polled_rows env js (run_job env j w)"

text \<open>
  "Within the last 15 minutes" as the words say it: after the cutoff and not after the
  time of the poll.
\<close>

definition within_last_15_minutes :: "timestamp \<Rightarrow> timestamp \<Rightarrow> bool" where
  "within_last_15_minutes now t = (now - interval_15_minutes < t \<and> t \<le> now)"

text \<open>
  The store without the milestone of a given identifier, the test for a daily summary
  among the messages, and the delivery attempts of a worker other than daily summaries:
  the milestone notifications and the exception alerts.
\<close>

definition delete_milestone :: "nat \<Rightarrow> store \<Rightarrow> store" where
  "delete_milestone k d = d\<lparr>milestones := filter (\<lambda>m. milestone_id m \<noteq> k) (milestones d)\<rparr>"

definition is_summary :: "message \<Rightarrow> bool" where
  "is_summary msg = (case html_part msg of SummaryHtml h \<Rightarrow> True | _ \<Rightarrow> False)"

definition notifications_and_alerts :: "worker \<Rightarrow> (message \<times> bool) list" where
  "notifications_and_alerts w = filter (\<lambda>e. \<not> is_summary (fst e)) (outbox w)"

section \<open>Properties of the string helpers\<close>

lemmas ascii_defs = islower_def isupper_def upper_def lower_def ascii_lowercase_def
  ascii_uppercase_def











section \<open>Milestone name formatting\<close>




section \<open>Sending\<close>

lemmas example_defs = example_env_def example_shipment_def example_exception_def
  empty_worker_def

lemma send_email_outbox:
  "outbox (snd (send_email env rs subj body w)) =
     outbox w @ [(\<lparr>msg_From = from_email env, msg_To = rs, msg_Subject = subj, html_part = body\<rparr>,
                  smtp env (length (outbox w))
                    \<lparr>msg_From = from_email env, msg_To = rs, msg_Subject = subj,
                      html_part = body\<rparr>)]"
  by (simp add: send_email_def Let_def)

lemma send_email_db: "db (snd (send_email env rs subj body w)) = db w"
  by (simp add: send_email_def Let_def)

section \<open>Recipients of an exception alert\<close>

lemma send_exception_alert_To:
  "msg_To (fst (last (outbox (send_exception_alert env row w)))) =
     alert_recipients env (severity (fst row))"
  by (simp add: send_exception_alert_def send_email_outbox)

text \<open>
  C6. The alert for an exception of severity \<open>HIGH\<close> or \<open>CRITICAL\<close> goes to the base
  recipient list followed by the escalation list, which is the non-empty pieces of
  \<open>ESCALATION_EMAILS\<close> split at commas; the alert for severity \<open>LOW\<close> or \<open>MEDIUM\<close> goes
  to the base recipient list only.
\<close>

theorem send_exception_alert_routing:
  "(severity e \<in> {Some ''HIGH'', Some ''CRITICAL''} \<longrightarrow>
      msg_To (fst (last (outbox (send_exception_alert env (e, s) w)))) =
        vhc_recipients env
        @ filter (\<lambda>x. x \<noteq> []) (str_split (getenv (ESCALATION_EMAILS env) []) (CHR '','')))
   \<and> (severity e \<in> {Some ''LOW'', Some ''MEDIUM''} \<longrightarrow>
      msg_To (fst (last (outbox (send_exception_alert env (e, s) w)))) = vhc_recipients env)"
  by (auto simp add: send_exception_alert_To alert_recipients_def Let_def)

theorem send_exception_alert_routing_witness:
  "severity (example_exception ''CRITICAL'') \<in> {Some ''HIGH'', Some ''CRITICAL''}
   \<and> msg_To (fst (last (outbox (send_exception_alert example_env
          (example_exception ''CRITICAL'', example_shipment) empty_worker)))) =
        [''ops@vhc.example'', ''desk@vhc.example'', ''chief@vhc.example'', ''duty@vhc.example'']
   \<and> severity (example_exception ''LOW'') \<in> {Some ''LOW'', Some ''MEDIUM''}
   \<and> msg_To (fst (last (outbox (send_exception_alert example_env
          (example_exception ''LOW'', example_shipment) empty_worker)))) =
        [''ops@vhc.example'', ''desk@vhc.example'']"
  using send_exception_alert_routing
          [of "example_exception ''CRITICAL''" example_env example_shipment empty_worker]
        send_exception_alert_routing
          [of "example_exception ''LOW''" example_env example_shipment empty_worker]
  by (simp add: example_defs vhc_recipients_def getenv_def str_split_def)

text \<open>
  C10. Splitting the empty string at commas gives one empty piece. So when
  \<open>ESCALATION_EMAILS\<close> is unset or empty, the alert for a \<open>HIGH\<close> or \<open>CRITICAL\<close>
  exception goes to exactly the base recipient list; and whatever the variable holds,
  no recipient added after the base list is blank.
\<close>

theorem escalation_unset_or_empty:
  "str_split [] (CHR '','') = [[]]
   \<and> (severity e \<in> {Some ''HIGH'', Some ''CRITICAL''} \<longrightarrow>
        (ESCALATION_EMAILS env = None \<or> ESCALATION_EMAILS env = Some [] \<longrightarrow>
           msg_To (fst (last (outbox (send_exception_alert env (e, s) w)))) = vhc_recipients env)
        \<and> [] \<notin> set (drop (length (vhc_recipients env))
                         (msg_To (fst (last (outbox (send_exception_alert env (e, s) w)))))))"
  by (auto simp add: send_exception_alert_To alert_recipients_def Let_def getenv_def
        str_split_def)

theorem escalation_unset_or_empty_witness:
  "severity (example_exception ''HIGH'') \<in> {Some ''HIGH'', Some ''CRITICAL''}
   \<and> ESCALATION_EMAILS (example_env\<lparr>ESCALATION_EMAILS := Some []\<rparr>) = Some []
   \<and> msg_To (fst (last (outbox (send_exception_alert
          (example_env\<lparr>ESCALATION_EMAILS := Some []\<rparr>)
          (example_exception ''HIGH'', example_shipment) empty_worker)))) =
        [''ops@vhc.example'', ''desk@vhc.example'']
   \<and> ESCALATION_EMAILS (example_env\<lparr>ESCALATION_EMAILS := None\<rparr>) = None
   \<and> msg_To (fst (last (outbox (send_exception_alert
          (example_env\<lparr>ESCALATION_EMAILS := None\<rparr>)
          (example_exception ''HIGH'', example_shipment) empty_worker)))) =
        [''ops@vhc.example'', ''desk@vhc.example'']"
  using escalation_unset_or_empty
          [of "example_exception ''HIGH''" "example_env\<lparr>ESCALATION_EMAILS := Some []\<rparr>"
              example_shipment empty_worker]
        escalation_unset_or_empty
          [of "example_exception ''HIGH''" "example_env\<lparr>ESCALATION_EMAILS := None\<rparr>"
              example_shipment empty_worker]
  by (simp add: example_defs vhc_recipients_def getenv_def str_split_def)

section \<open>Validation in the API handlers\<close>

text \<open>
  The handlers that check their input answer 400 to an authorised request that lacks a
  required field.
\<close>

lemma login_missing_field:
  "get_json req ''email'' = None \<or> get_json req ''password'' = None \<Longrightarrow>
   status_code (login req) = Some 400"
  by (auto simp add: login_def dict_get_def status_code_def Let_def)

lemma role_required_passes:
  "jwt_identity req = Some u \<Longrightarrow> id_role u \<in> set roles \<Longrightarrow> role_required roles req view = view"
  by (simp add: role_required_def)

lemma register_user_missing_field:
  "jwt_identity req = Some u \<Longrightarrow> id_role u = ''ADMIN'' \<Longrightarrow>
   field \<in> {''email'', ''password'', ''full_name'', ''role''} \<Longrightarrow> get_json req field = None \<Longrightarrow>
   status_code (register_user req) = Some 400"
  by (auto simp add: register_user_def role_required_def missing_fields_def status_code_def)

lemma create_shipment_missing_field:
  "jwt_identity req = Some u \<Longrightarrow> id_role u \<in> {''SEAIR_ORIGIN'', ''ADMIN''} \<Longrightarrow>
   get_json req ''booking_number'' = None \<Longrightarrow>
   status_code (create_shipment req) = Some 400"
  by (auto simp add: create_shipment_def role_required_def missing_fields_def status_code_def)

lemma update_milestone_missing_field:
  "jwt_identity req = Some u \<Longrightarrow> id_role u \<in> {''SEAIR_ORIGIN'', ''SEAIR_US'', ''ADMIN''} \<Longrightarrow>
   get_json req ''milestone_name'' = None \<Longrightarrow>
   status_code (update_milestone sid req) = Some 400"
  by (auto simp add: update_milestone_def role_required_def dict_get_def status_code_def)

lemma upload_document_missing_field:
  "jwt_identity req = Some u \<Longrightarrow>
   files req ''file'' = None \<or> form req ''document_type'' = None \<Longrightarrow>
   status_code (upload_document sid req) = Some 400"
  by (auto simp add: upload_document_def jwt_required_def truthy_def status_code_def
        split: option.splits)

lemma create_invoice_missing_field:
  "jwt_identity req = Some u \<Longrightarrow> id_role u \<in> {''SEAIR_US'', ''ADMIN''} \<Longrightarrow>
   field \<in> {''shipment_id'', ''invoice_number'', ''total_amount''} \<Longrightarrow>
   get_json req field = None \<Longrightarrow>
   status_code (create_invoice req) = Some 400"
  by (auto simp add: create_invoice_def role_required_def missing_fields_def status_code_def)

text \<open>
  \<open>create_exception\<close> answers 500 to every authorised request without a title.
\<close>

lemma create_exception_without_title:
  "jwt_identity req = Some u \<Longrightarrow> id_role u \<in> {''SEAIR_ORIGIN'', ''SEAIR_US'', ''ADMIN''} \<Longrightarrow>
   get_json req ''title'' = None \<Longrightarrow>
   create_exception sid req = Unhandled KeyError \<and> status_code (create_exception sid req) = Some 500"
  by (auto simp add: create_exception_def role_required_def dict_item_def status_code_def Let_def)

text \<open>
  C9. The claim asks 400 of every mutating endpoint when a required field is missing.
  \<open>create_exception\<close> does not give it: for the sample request, authorised and without
  \<open>title\<close>, the subscript raises \<open>KeyError\<close> before any statement reaches the store, and
  the answer is 500.
\<close>

theorem create_exception_missing_title:
  "get_json example_request ''title'' = None
   \<and> create_exception 1 example_request = Unhandled KeyError
   \<and> status_code (create_exception 1 example_request) = Some 500"
  by (simp add: create_exception_def role_required_def example_request_def dict_get_def
        dict_item_def status_code_def)

section \<open>The milestone poll\<close>

lemma mark_all_notified_empty: "mark_all_notified {} d = d"
  by (simp add: mark_all_notified_def)

lemma mark_notified_mark_all:
  "mark_notified k (mark_all_notified ks d) = mark_all_notified (insert k ks) d"
  by (auto simp add: mark_notified_def mark_all_notified_def)

lemma send_milestone_notification_Some:
  "actual_date (fst row) = Some t \<Longrightarrow>
   send_milestone_notification env now row w =
     Inr (w\<lparr>outbox := outbox w @ [(milestone_message env now row t,
                                     smtp env (length (outbox w)) (milestone_message env now row t))]\<rparr>)"
  by (simp add: send_milestone_notification_def send_email_def milestone_message_def Let_def)

lemma notify_rows_db_gen:
  "\<forall>row \<in> set rows. actual_date (fst row) \<noteq> None \<Longrightarrow>
   db w = mark_all_notified ks d0 \<Longrightarrow>
   db (notify_rows env now rows w) = mark_all_notified (ks \<union> (\<lambda>r. milestone_id (fst r)) ` set rows) d0"
proof (induction rows arbitrary: w ks)
  case Nil
  then show ?case by simp
next
  case (Cons row rows)
  from Cons.prems(1) obtain t where t: "actual_date (fst row) = Some t" by auto
  let ?w1 = "w\<lparr>outbox := outbox w @ [(milestone_message env now row t,
                 smtp env (length (outbox w)) (milestone_message env now row t))]\<rparr>"
  let ?w2 = "?w1\<lparr>db := mark_notified (milestone_id (fst row)) (db ?w1)\<rparr>"
  have step: "notify_rows env now (row # rows) w = notify_rows env now rows ?w2"
    by (simp add: send_milestone_notification_Some [OF t])
  have "db ?w2 = mark_all_notified (insert (milestone_id (fst row)) ks) d0"
    using Cons.prems(2) by (simp add: mark_notified_mark_all)
  with Cons.IH [of ?w2 "insert (milestone_id (fst row)) ks"] Cons.prems(1)
  have "db (notify_rows env now rows ?w2) =
          mark_all_notified (insert (milestone_id (fst row)) ks \<union> (\<lambda>r. milestone_id (fst r)) ` set rows) d0"
    by simp
  then show ?case by (simp only: step) simp
qed

lemma notify_rows_db:
  "\<forall>row \<in> set rows. actual_date (fst row) \<noteq> None \<Longrightarrow>
   db (notify_rows env now rows w) = mark_all_notified ((\<lambda>r. milestone_id (fst r)) ` set rows) (db w)"
  using notify_rows_db_gen [of rows w "{}" "db w" env now]
  by (simp add: mark_all_notified_empty)

lemma notify_rows_outbox:
  "\<forall>row \<in> set rows. actual_date (fst row) \<noteq> None \<Longrightarrow>
   map (\<lambda>e. Some (fst e)) (outbox (notify_rows env now rows w)) =
     map (\<lambda>e. Some (fst e)) (outbox w)
     @ map (\<lambda>row. map_option (milestone_message env now row) (actual_date (fst row))) rows"
proof (induction rows arbitrary: w)
  case Nil
  then show ?case by simp
next
  case (Cons row rows)
  from Cons.prems obtain t where t: "actual_date (fst row) = Some t" by auto
  let ?w1 = "w\<lparr>outbox := outbox w @ [(milestone_message env now row t,
                 smtp env (length (outbox w)) (milestone_message env now row t))]\<rparr>"
  let ?w2 = "?w1\<lparr>db := mark_notified (milestone_id (fst row)) (db ?w1)\<rparr>"
  have step: "notify_rows env now (row # rows) w = notify_rows env now rows ?w2"
    by (simp add: send_milestone_notification_Some [OF t])
  from Cons.IH [of ?w2] Cons.prems
  have "map (\<lambda>e. Some (fst e)) (outbox (notify_rows env now rows ?w2)) =
          map (\<lambda>e. Some (fst e)) (outbox w)
          @ map (\<lambda>row. map_option (milestone_message env now row) (actual_date (fst row)))
              (row # rows)"
    by (simp add: t)
  then show ?case by (simp only: step)
qed

lemma set_new_milestones:
  "set (new_milestones now d) =
     {(m, s). m \<in> set (milestones d) \<and> s \<in> set (shipments d)
              \<and> m_shipment_id m = shipment_id s \<and> milestone_due now m}"
  by (auto simp add: new_milestones_def)

lemma new_milestones_dated:
  "row \<in> set (new_milestones now d) \<Longrightarrow> \<exists>t. actual_date (fst row) = Some t \<and> after_cutoff now t"
  by (auto simp add: set_new_milestones milestone_due_def date_after_cutoff_def split: option.splits)

lemma new_milestones_sorted:
  "sorted_wrt (\<lambda>a b. \<forall>ta tb. actual_date (fst a) = Some ta \<longrightarrow> actual_date (fst b) = Some tb
                        \<longrightarrow> tb \<le> ta) (new_milestones now d)"
proof -
  let ?k = "\<lambda>(m :: milestone, s :: shipment). date_desc (actual_date m)"
  have "sorted (map ?k (new_milestones now d))"
    unfolding new_milestones_def by (rule sorted_sort_key)
  then have "sorted_wrt (\<lambda>a b. ?k a \<le> ?k b) (new_milestones now d)"
    by (simp add: sorted_map)
  then show ?thesis
    by (rule sorted_wrt_mono_rel [rotated]) (auto simp add: date_desc_def split: prod.splits)
qed

lemmas example_defs2 = example_defs example_milestone_def stale_milestone_def future_milestone_def
  example_store_def example_worker_def

lemma mark_all_notified_sent:
  "m \<in> set (milestones (mark_all_notified ks d)) \<Longrightarrow> milestone_id m \<in> ks \<Longrightarrow> notification_sent m"
  by (auto simp add: mark_all_notified_def split: if_splits)

lemma mark_all_notified_mem:
  "m \<in> set (milestones d) \<Longrightarrow> milestone_id m \<in> ks \<Longrightarrow>
   m\<lparr>notification_sent := True\<rparr> \<in> set (milestones (mark_all_notified ks d))"
  by (force simp add: mark_all_notified_def)

lemma notify_rows_prefix:
  "take (length (outbox w)) (outbox (notify_rows env now rows w)) = outbox w"
proof (induction rows arbitrary: w)
  case Nil
  then show ?case by simp
next
  case (Cons row rows)
  show ?case
  proof (cases "actual_date (fst row)")
    case None
    then show ?thesis by (simp add: send_milestone_notification_def)
  next
    case (Some t)
    let ?w1 = "w\<lparr>outbox := outbox w @ [(milestone_message env now row t,
                   smtp env (length (outbox w)) (milestone_message env now row t))]\<rparr>"
    let ?w2 = "?w1\<lparr>db := mark_notified (milestone_id (fst row)) (db ?w1)\<rparr>"
    have step: "notify_rows env now (row # rows) w = notify_rows env now rows ?w2"
      by (simp add: send_milestone_notification_Some [OF Some])
    have "take (length (outbox ?w2)) (outbox (notify_rows env now rows ?w2)) = outbox ?w2"
      by (rule Cons.IH)
    then have "take (length (outbox w)) (take (length (outbox ?w2)) (outbox (notify_rows env now rows ?w2)))
                 = take (length (outbox w)) (outbox ?w2)"
      by simp
    then have "take (length (outbox w)) (outbox (notify_rows env now rows ?w2)) = outbox w"
      by (simp add: min_def)
    then show ?thesis by (simp only: step)
  qed
qed

lemma check_new_milestones_db:
  "db (check_new_milestones env now w) =
     mark_all_notified ((\<lambda>r. milestone_id (fst r)) ` set (new_milestones now (db w))) (db w)"
  unfolding check_new_milestones_def
  by (rule notify_rows_db) (use new_milestones_dated in fastforce)

lemma check_new_milestones_outbox:
  "map (\<lambda>e. Some (fst e)) (outbox (check_new_milestones env now w)) =
     map (\<lambda>e. Some (fst e)) (outbox w)
     @ map (\<lambda>row. map_option (milestone_message env now row) (actual_date (fst row)))
         (new_milestones now (db w))"
  unfolding check_new_milestones_def
  by (rule notify_rows_outbox) (use new_milestones_dated in fastforce)

text \<open>
  C1. \<open>check_new_milestones\<close> makes one delivery attempt for every row the poll returns,
  in the poll's order, and keeps the earlier log. Every returned row has a date; after
  the run its milestone is in the table with \<open>notification_sent\<close> true, and so is every
  milestone with its identifier. The store after the run is the same for every relay, so
  a refused delivery neither prevents nor delays the update.
\<close>

theorem check_new_milestones_marks_whatever_the_delivery:
  "map (\<lambda>e. Some (fst e)) (outbox (check_new_milestones env now w)) =
     map (\<lambda>e. Some (fst e)) (outbox w)
     @ map (\<lambda>row. map_option (milestone_message env now row) (actual_date (fst row)))
         (new_milestones now (db w))
   \<and> take (length (outbox w)) (outbox (check_new_milestones env now w)) = outbox w
   \<and> (\<forall>row \<in> set (new_milestones now (db w)).
        actual_date (fst row) \<noteq> None
        \<and> (fst row)\<lparr>notification_sent := True\<rparr> \<in> set (milestones (db (check_new_milestones env now w)))
        \<and> (\<forall>m \<in> set (milestones (db (check_new_milestones env now w))).
              milestone_id m = milestone_id (fst row) \<longrightarrow> notification_sent m))
   \<and> (\<forall>relay. db (check_new_milestones (env\<lparr>smtp := relay\<rparr>) now w)
                 = db (check_new_milestones env now w))"
proof -
  let ?rows = "new_milestones now (db w)"
  let ?ids = "(\<lambda>r. milestone_id (fst r)) ` set ?rows"
  have a: "take (length (outbox w)) (outbox (check_new_milestones env now w)) = outbox w"
    unfolding check_new_milestones_def by (rule notify_rows_prefix)
  have b: "\<forall>relay. db (check_new_milestones (env\<lparr>smtp := relay\<rparr>) now w)
                 = db (check_new_milestones env now w)"
    by (simp add: check_new_milestones_db)
  have c: "\<forall>row \<in> set ?rows.
        actual_date (fst row) \<noteq> None
        \<and> (fst row)\<lparr>notification_sent := True\<rparr> \<in> set (milestones (db (check_new_milestones env now w)))
        \<and> (\<forall>m \<in> set (milestones (db (check_new_milestones env now w))).
              milestone_id m = milestone_id (fst row) \<longrightarrow> notification_sent m)"
  proof
    fix row assume row: "row \<in> set ?rows"
    then have d: "actual_date (fst row) \<noteq> None" using new_milestones_dated by fastforce
    from row have in_ids: "milestone_id (fst row) \<in> ?ids" by blast
    from row have mem: "fst row \<in> set (milestones (db w))"
      by (auto simp add: set_new_milestones)
    have e: "(fst row)\<lparr>notification_sent := True\<rparr> \<in> set (milestones (db (check_new_milestones env now w)))"
      using mem in_ids by (simp add: check_new_milestones_db mark_all_notified_mem)
    have f: "\<forall>m \<in> set (milestones (db (check_new_milestones env now w))).
              milestone_id m = milestone_id (fst row) \<longrightarrow> notification_sent m"
      using in_ids mark_all_notified_sent by (simp add: check_new_milestones_db)
    from d e f show "actual_date (fst row) \<noteq> None
        \<and> (fst row)\<lparr>notification_sent := True\<rparr> \<in> set (milestones (db (check_new_milestones env now w)))
        \<and> (\<forall>m \<in> set (milestones (db (check_new_milestones env now w))).
              milestone_id m = milestone_id (fst row) \<longrightarrow> notification_sent m)"
      by blast
  qed
  from check_new_milestones_outbox [of env now w] a b c show ?thesis by blast
qed

lemmas poll_defs = new_milestones_def milestone_due_def date_after_cutoff_def after_cutoff_def
  interval_15_minutes_def date_desc_def

theorem check_new_milestones_marks_whatever_the_delivery_witness:
  "(example_milestone, example_shipment) \<in> set (new_milestones 10000 (db example_worker))
   \<and> map snd (outbox (check_new_milestones example_env 10000 example_worker)) = [False]
   \<and> example_milestone\<lparr>notification_sent := True\<rparr>
       \<in> set (milestones (db (check_new_milestones example_env 10000 example_worker)))"
proof -
  have rows: "new_milestones 10000 (db example_worker) = [(example_milestone, example_shipment)]"
    by (simp add: example_defs2 poll_defs)
  have out: "map snd (outbox (check_new_milestones example_env 10000 example_worker)) = [False]"
    by (simp only: check_new_milestones_def rows)
       (simp add: send_milestone_notification_def send_email_def Let_def example_defs2)
  from check_new_milestones_marks_whatever_the_delivery [of example_env 10000 example_worker]
  show ?thesis using rows out by simp
qed

lemma distinct_join:
  "distinct ms \<Longrightarrow> distinct ss \<Longrightarrow>
   distinct (concat (map (\<lambda>m. map (\<lambda>s. (m, s)) (filter (P m) ss)) ms))"
  by (induction ms) (auto simp add: distinct_map inj_on_def)

text \<open>
  C3, as the code has it. The poll returns exactly the pairs of a milestone and a
  shipment of the store with the milestone's shipment identifier, where the milestone has
  \<open>notification_sent\<close> false, status \<open>COMPLETED\<close> and a date later than 15 minutes before
  the time of the poll. The condition has no upper bound, so a milestone dated after the
  time of the poll is selected too. The rows come newest first by date, and without
  repetition when the tables have none.
\<close>

theorem new_milestones_selects:
  "set (new_milestones now d) =
     {(m, s). m \<in> set (milestones d) \<and> s \<in> set (shipments d)
              \<and> m_shipment_id m = shipment_id s
              \<and> notification_sent m = False \<and> milestone_status m = ''COMPLETED''
              \<and> (\<exists>t. actual_date m = Some t \<and> now - 15 * 60 < t)}
   \<and> sorted_wrt (\<lambda>a b. \<forall>ta tb. actual_date (fst a) = Some ta \<longrightarrow> actual_date (fst b) = Some tb
                          \<longrightarrow> tb \<le> ta) (new_milestones now d)
   \<and> (distinct (milestones d) \<and> distinct (shipments d) \<longrightarrow> distinct (new_milestones now d))"
proof -
  have a: "set (new_milestones now d) =
     {(m, s). m \<in> set (milestones d) \<and> s \<in> set (shipments d)
              \<and> m_shipment_id m = shipment_id s
              \<and> notification_sent m = False \<and> milestone_status m = ''COMPLETED''
              \<and> (\<exists>t. actual_date m = Some t \<and> now - 15 * 60 < t)}"
    by (auto simp add: set_new_milestones milestone_due_def date_after_cutoff_def after_cutoff_def
          interval_15_minutes_def split: option.splits)
  have c: "distinct (milestones d) \<and> distinct (shipments d) \<longrightarrow> distinct (new_milestones now d)"
    by (simp add: new_milestones_def distinct_join)
  from a new_milestones_sorted [of now d] c show ?thesis by blast
qed

theorem new_milestones_selects_witness:
  "set (new_milestones 10000 example_store) = {(example_milestone, example_shipment)}
   \<and> distinct (milestones example_store) \<and> distinct (shipments example_store)
   \<and> distinct (new_milestones 10000 example_store)"
proof -
  have "new_milestones 10000 example_store = [(example_milestone, example_shipment)]"
    by (simp add: example_defs2 poll_defs)
  moreover have "distinct (milestones example_store) \<and> distinct (shipments example_store)"
    by (simp add: example_defs2)
  ultimately show ?thesis
    using new_milestones_selects [of 10000 example_store] by simp
qed

text \<open>
  C3 as stated fails: a milestone dated 10000 seconds after the poll is not within the last
  15 minutes, and the poll selects it.
\<close>

theorem new_milestones_selects_future_dated:
  "(future_milestone, example_shipment) \<in> set (new_milestones 10000 future_store)
   \<and> notification_sent future_milestone = False
   \<and> milestone_status future_milestone = ''COMPLETED''
   \<and> actual_date future_milestone = Some 20000
   \<and> \<not> within_last_15_minutes 10000 20000"
  by (simp add: future_store_def example_defs2 poll_defs within_last_15_minutes_def)

section \<open>Running the milestone poll again\<close>

lemma milestone_due_mono:
  "now \<le> now' \<Longrightarrow> milestone_due now' m \<Longrightarrow> milestone_due now m"
  by (auto simp add: milestone_due_def date_after_cutoff_def after_cutoff_def split: option.splits)

lemma mark_all_notified_shipments [simp]: "shipments (mark_all_notified ks d) = shipments d"
  by (simp add: mark_all_notified_def)

lemma mark_all_notified_unsent:
  "m \<in> set (milestones (mark_all_notified ks d)) \<Longrightarrow> notification_sent m = False \<Longrightarrow>
   m \<in> set (milestones d) \<and> milestone_id m \<notin> ks"
  by (auto simp add: mark_all_notified_def split: if_splits)

text \<open>
  C2. After a run of \<open>check_new_milestones\<close>, a poll at any time returns no milestone
  whose identifier the run processed: their flags are true and the poll asks for false.
  When the second run is not earlier than the first and nothing else has written to the
  store, its poll is empty and it leaves the worker as it was: no further message.
\<close>

theorem check_new_milestones_rerun:
  "(\<forall>row \<in> set (new_milestones now' (db (check_new_milestones env now w))).
      milestone_id (fst row) \<notin> (\<lambda>r. milestone_id (fst r)) ` set (new_milestones now (db w)))
   \<and> (now \<le> now' \<longrightarrow>
        new_milestones now' (db (check_new_milestones env now w)) = []
        \<and> check_new_milestones env' now' (check_new_milestones env now w)
            = check_new_milestones env now w)"
proof -
  let ?w1 = "check_new_milestones env now w"
  let ?ids = "(\<lambda>r. milestone_id (fst r)) ` set (new_milestones now (db w))"
  have db1: "db ?w1 = mark_all_notified ?ids (db w)"
    by (rule check_new_milestones_db)
  have a: "\<forall>row \<in> set (new_milestones now' (db ?w1)). milestone_id (fst row) \<notin> ?ids"
  proof
    fix row assume "row \<in> set (new_milestones now' (db ?w1))"
    then have "fst row \<in> set (milestones (mark_all_notified ?ids (db w)))"
      and "notification_sent (fst row) = False"
      by (auto simp add: set_new_milestones db1 milestone_due_def)
    then show "milestone_id (fst row) \<notin> ?ids"
      using mark_all_notified_unsent by blast
  qed
  have b: "new_milestones now' (db ?w1) = []" if le: "now \<le> now'"
  proof (rule ccontr)
    assume "new_milestones now' (db ?w1) \<noteq> []"
    then obtain m s where row: "(m, s) \<in> set (new_milestones now' (db ?w1))"
      by (cases "new_milestones now' (db ?w1)") auto
    then have m: "m \<in> set (milestones (mark_all_notified ?ids (db w)))"
      and s: "s \<in> set (shipments (db w))" and j: "m_shipment_id m = shipment_id s"
      and due: "milestone_due now' m"
      by (auto simp add: set_new_milestones db1)
    from due have "notification_sent m = False" by (simp add: milestone_due_def)
    with m have m0: "m \<in> set (milestones (db w))"
      using mark_all_notified_unsent by blast
    from due le have "milestone_due now m" by (rule milestone_due_mono [rotated])
    with m0 s j have "(m, s) \<in> set (new_milestones now (db w))"
      by (simp add: set_new_milestones)
    then have "milestone_id m \<in> ?ids" by force
    moreover from a row have "milestone_id m \<notin> ?ids" by force
    ultimately show False by contradiction
  qed
  have c: "check_new_milestones env' now' ?w1 = ?w1" if le: "now \<le> now'"
    using b [OF le] by (simp add: check_new_milestones_def [of env' now' ?w1])
  from a b c show ?thesis by blast
qed

theorem check_new_milestones_rerun_witness:
  "(10000 :: int) \<le> 10060
   \<and> outbox (check_new_milestones example_env 10060
               (check_new_milestones example_env 10000 example_worker))
       = outbox (check_new_milestones example_env 10000 example_worker)
   \<and> length (outbox (check_new_milestones example_env 10000 example_worker)) = 1"
proof -
  have rows: "new_milestones 10000 (db example_worker) = [(example_milestone, example_shipment)]"
    by (simp add: example_defs2 poll_defs)
  have len: "length (outbox (check_new_milestones example_env 10000 example_worker)) = 1"
    by (simp only: check_new_milestones_def rows)
       (simp add: send_milestone_notification_def send_email_def Let_def example_defs2)
  from check_new_milestones_rerun [of 10060 example_env 10000 example_worker example_env]
  show ?thesis using len by simp
qed

section \<open>Milestones that left the window\<close>

lemma alert_rows_db: "db (alert_rows env rows w) = db w"
  by (induction rows arbitrary: w) (simp_all add: send_exception_alert_def send_email_db)

lemma check_exceptions_db: "db (check_exceptions env now w) = db w"
  by (simp add: check_exceptions_def alert_rows_db)

lemma send_daily_summary_db: "db (send_daily_summary env now w) = db w"
  by (simp add: send_daily_summary_def send_daily_summary_email_def Let_def send_email_db)

lemma mark_all_notified_ids:
  "map milestone_id (milestones (mark_all_notified ks d)) = map milestone_id (milestones d)"
  by (simp add: mark_all_notified_def comp_def if_distrib [of milestone_id])

lemma mark_all_notified_keeps:
  "m \<in> set (milestones d) \<Longrightarrow> milestone_id m \<notin> ks \<Longrightarrow> m \<in> set (milestones (mark_all_notified ks d))"
  by (force simp add: mark_all_notified_def)

lemma same_id_same_row:
  "distinct (map milestone_id ms) \<Longrightarrow> m \<in> set ms \<Longrightarrow> m' \<in> set ms \<Longrightarrow>
   milestone_id m' = milestone_id m \<Longrightarrow> m' = m"
  by (meson distinct_map inj_on_def)

lemma stale_step:
  assumes m: "m \<in> set (milestones (db w))"
    and d: "distinct (map milestone_id (milestones (db w)))"
    and stale: "\<not> date_after_cutoff now (actual_date m)"
  shows "m \<notin> fst ` set (new_milestones now (db w))"
    and "m \<in> set (milestones (db (check_new_milestones env now w)))"
    and "distinct (map milestone_id (milestones (db (check_new_milestones env now w))))"
proof -
  show a: "m \<notin> fst ` set (new_milestones now (db w))"
    using stale by (auto simp add: set_new_milestones milestone_due_def)
  have "milestone_id m \<notin> (\<lambda>r. milestone_id (fst r)) ` set (new_milestones now (db w))"
  proof
    assume "milestone_id m \<in> (\<lambda>r. milestone_id (fst r)) ` set (new_milestones now (db w))"
    then obtain m' s where row: "(m', s) \<in> set (new_milestones now (db w))"
      and same: "milestone_id m' = milestone_id m" by force
    from row have "m' \<in> set (milestones (db w))" by (simp add: set_new_milestones)
    then have "m' = m" using same_id_same_row [OF d m _ same] by blast
    with row a show False by force
  qed
  with m show "m \<in> set (milestones (db (check_new_milestones env now w)))"
    by (simp add: check_new_milestones_db mark_all_notified_keeps)
  from d show "distinct (map milestone_id (milestones (db (check_new_milestones env now w))))"
    by (simp add: check_new_milestones_db mark_all_notified_ids)
qed

lemma stale_run:
  "m \<in> set (milestones (db w)) \<Longrightarrow>
   distinct (map milestone_id (milestones (db w))) \<Longrightarrow>
   \<forall>j \<in> set js. fst j = Check_new_milestones \<longrightarrow> \<not> date_after_cutoff (snd j) (actual_date m) \<Longrightarrow>
   m \<notin> fst ` set (polled_rows env js w)
   \<and> m \<in> set (milestones (db (run_pending env js w)))
   \<and> distinct (map milestone_id (milestones (db (run_pending env js w))))"
proof (induction js arbitrary: w)
  case Nil
  then show ?case by simp
next
  case (Cons j js)
  obtain k now where j: "j = (k, now)" by (cases j)
  have rest: "\<forall>j \<in> set js. fst j = Check_new_milestones \<longrightarrow> \<not> date_after_cutoff (snd j) (actual_date m)"
    using Cons.prems(3) by simp
  show ?case
  proof (cases k)
    case Check_new_milestones
    with Cons.prems(3) j have stale: "\<not> date_after_cutoff now (actual_date m)" by simp
    note s = stale_step [OF Cons.prems(1) Cons.prems(2) stale]
    from Cons.IH [OF s(2) [of env] s(3) [of env] rest] s(1) show ?thesis
      by (auto simp add: j Check_new_milestones)
  next
    case Check_exceptions
    with Cons.IH [of "check_exceptions env now w"] Cons.prems(1,2) rest show ?thesis
      by (simp add: j check_exceptions_db)
  next
    case Send_daily_summary
    with Cons.IH [of "send_daily_summary env now w"] Cons.prems(1,2) rest show ?thesis
      by (simp add: j send_daily_summary_db)
  qed
qed

lemma mark_notified_delete:
  "mark_notified j (delete_milestone k d) = delete_milestone k (mark_notified j d)"
proof -
  have "filter (\<lambda>m. milestone_id m \<noteq> k)
          (map (\<lambda>m. if milestone_id m = j then m\<lparr>notification_sent := True\<rparr> else m) ms)
        = map (\<lambda>m. if milestone_id m = j then m\<lparr>notification_sent := True\<rparr> else m)
            (filter (\<lambda>m. milestone_id m \<noteq> k) ms)" for ms
    by (induction ms) auto
  note h = this
  show ?thesis by (simp add: mark_notified_def delete_milestone_def h)
qed

lemma new_milestones_delete:
  "\<forall>x \<in> set (milestones d). milestone_id x = k \<longrightarrow> \<not> milestone_due now x \<Longrightarrow>
   new_milestones now (delete_milestone k d) = new_milestones now d"
proof -
  assume a: "\<forall>x \<in> set (milestones d). milestone_id x = k \<longrightarrow> \<not> milestone_due now x"
  have "filter (milestone_due now) (filter (\<lambda>m. milestone_id m \<noteq> k) (milestones d))
          = filter (milestone_due now) (milestones d)"
    using a by (auto intro: filter_cong)
  then show ?thesis by (simp add: new_milestones_def delete_milestone_def)
qed

lemma open_exceptions_delete:
  "open_exceptions now (delete_milestone k d) = open_exceptions now d"
  by (simp add: open_exceptions_def delete_milestone_def)

lemma send_email_sim:
  assumes "length (outbox w') = length (outbox w)"
    and "notifications_and_alerts w' = notifications_and_alerts w"
  shows "length (outbox (snd (send_email env rs subj body w')))
           = length (outbox (snd (send_email env rs subj body w)))
         \<and> notifications_and_alerts (snd (send_email env rs subj body w'))
           = notifications_and_alerts (snd (send_email env rs subj body w))"
  using assms by (simp add: send_email_def Let_def notifications_and_alerts_def)

lemma notify_rows_sim:
  "db w' = delete_milestone k (db w) \<Longrightarrow>
   length (outbox w') = length (outbox w) \<Longrightarrow>
   notifications_and_alerts w' = notifications_and_alerts w \<Longrightarrow>
   db (notify_rows env now rows w') = delete_milestone k (db (notify_rows env now rows w))
   \<and> length (outbox (notify_rows env now rows w')) = length (outbox (notify_rows env now rows w))
   \<and> notifications_and_alerts (notify_rows env now rows w')
       = notifications_and_alerts (notify_rows env now rows w)"
proof (induction rows arbitrary: w w')
  case Nil
  then show ?case by simp
next
  case (Cons row rows)
  show ?case
  proof (cases "actual_date (fst row)")
    case None
    with Cons.prems show ?thesis by (simp add: send_milestone_notification_def)
  next
    case (Some t)
    let ?s = "\<lambda>w. snd (send_email env (vhc_recipients env) (milestone_subject row)
                          (milestone_body env now row t) w)"
    let ?n = "\<lambda>w. (?s w)\<lparr>db := mark_notified (milestone_id (fst row)) (db (?s w))\<rparr>"
    have step: "notify_rows env now (row # rows) v = notify_rows env now rows (?n v)" for v
      by (simp add: send_milestone_notification_def Some)
    note e = send_email_sim [OF Cons.prems(2) Cons.prems(3), of env "vhc_recipients env"
        "milestone_subject row" "milestone_body env now row t"]
    have d: "db (?n w') = delete_milestone k (db (?n w))"
      using Cons.prems(1) by (simp add: send_email_db mark_notified_delete)
    have l: "length (outbox (?n w')) = length (outbox (?n w))" using e by simp
    have f: "notifications_and_alerts (?n w') = notifications_and_alerts (?n w)"
      using e by (simp add: notifications_and_alerts_def)
    from Cons.IH [OF d l f] show ?thesis by (simp only: step)
  qed
qed

lemma alert_rows_sim:
  "length (outbox w') = length (outbox w) \<Longrightarrow>
   notifications_and_alerts w' = notifications_and_alerts w \<Longrightarrow>
   length (outbox (alert_rows env rows w')) = length (outbox (alert_rows env rows w))
   \<and> notifications_and_alerts (alert_rows env rows w')
       = notifications_and_alerts (alert_rows env rows w)"
proof (induction rows arbitrary: w w')
  case Nil
  then show ?case by simp
next
  case (Cons row rows)
  note e = send_email_sim [OF Cons.prems(1) Cons.prems(2), of env
      "alert_recipients env (severity (fst row))" "exception_subject row" "exception_body env row"]
  from Cons.IH [of "send_exception_alert env row w'" "send_exception_alert env row w"] e
  show ?case by (simp add: send_exception_alert_def)
qed

lemma send_daily_summary_sim:
  "length (outbox w') = length (outbox w) \<Longrightarrow>
   notifications_and_alerts w' = notifications_and_alerts w \<Longrightarrow>
   length (outbox (send_daily_summary env now w')) = length (outbox (send_daily_summary env now w))
   \<and> notifications_and_alerts (send_daily_summary env now w')
       = notifications_and_alerts (send_daily_summary env now w)"
  by (simp add: send_daily_summary_def send_daily_summary_email_def send_email_def Let_def
        notifications_and_alerts_def is_summary_def)

lemma stale_run_sim:
  "m \<in> set (milestones (db w)) \<Longrightarrow>
   distinct (map milestone_id (milestones (db w))) \<Longrightarrow>
   \<forall>j \<in> set js. fst j = Check_new_milestones \<longrightarrow> \<not> date_after_cutoff (snd j) (actual_date m) \<Longrightarrow>
   db w' = delete_milestone (milestone_id m) (db w) \<Longrightarrow>
   length (outbox w') = length (outbox w) \<Longrightarrow>
   notifications_and_alerts w' = notifications_and_alerts w \<Longrightarrow>
   notifications_and_alerts (run_pending env js w') = notifications_and_alerts (run_pending env js w)"
proof (induction js arbitrary: w w')
  case Nil
  then show ?case by simp
next
  case (Cons j js)
  obtain k now where j: "j = (k, now)" by (cases j)
  have rest: "\<forall>j \<in> set js. fst j = Check_new_milestones \<longrightarrow> \<not> date_after_cutoff (snd j) (actual_date m)"
    using Cons.prems(3) by simp
  show ?case
  proof (cases k)
    case Check_new_milestones
    with Cons.prems(3) j have stale: "\<not> date_after_cutoff now (actual_date m)" by simp
    note s = stale_step [OF Cons.prems(1) Cons.prems(2) stale]
    have "\<forall>x \<in> set (milestones (db w)). milestone_id x = milestone_id m \<longrightarrow> \<not> milestone_due now x"
    proof (intro ballI impI)
      fix x assume x: "x \<in> set (milestones (db w))" and same: "milestone_id x = milestone_id m"
      have "x = m" using same_id_same_row [OF Cons.prems(2) Cons.prems(1) x same] .
      with stale show "\<not> milestone_due now x" by (simp add: milestone_due_def)
    qed
    then have rows: "new_milestones now (db w') = new_milestones now (db w)"
      by (simp add: Cons.prems(4) new_milestones_delete)
    note n = notify_rows_sim [OF Cons.prems(4) Cons.prems(5) Cons.prems(6), of env now
        "new_milestones now (db w)"]
    have c: "check_new_milestones env now w' = notify_rows env now (new_milestones now (db w)) w'"
      by (simp add: check_new_milestones_def rows)
    have c': "check_new_milestones env now w = notify_rows env now (new_milestones now (db w)) w"
      by (simp add: check_new_milestones_def)
    from n have n': "db (check_new_milestones env now w')
          = delete_milestone (milestone_id m) (db (check_new_milestones env now w))"
        "length (outbox (check_new_milestones env now w'))
          = length (outbox (check_new_milestones env now w))"
        "notifications_and_alerts (check_new_milestones env now w')
          = notifications_and_alerts (check_new_milestones env now w)"
      by (simp_all only: c c')
    from Cons.IH [OF s(2) [of env] s(3) [of env] rest n'] show ?thesis
      by (simp add: j Check_new_milestones)
  next
    case Check_exceptions
    have rows: "open_exceptions now (db w') = open_exceptions now (db w)"
      by (simp add: Cons.prems(4) open_exceptions_delete)
    note a = alert_rows_sim [OF Cons.prems(5) Cons.prems(6), of env "open_exceptions now (db w)"]
    have d: "db (check_exceptions env now w')
          = delete_milestone (milestone_id m) (db (check_exceptions env now w))"
      by (simp add: check_exceptions_db Cons.prems(4))
    from a have a': "length (outbox (check_exceptions env now w'))
          = length (outbox (check_exceptions env now w))"
        "notifications_and_alerts (check_exceptions env now w')
          = notifications_and_alerts (check_exceptions env now w)"
      by (simp_all add: check_exceptions_def rows)
    from Cons.IH [of "check_exceptions env now w" "check_exceptions env now w'"]
      Cons.prems(1,2) rest d a' show ?thesis
      by (simp add: j Check_exceptions check_exceptions_db)
  next
    case Send_daily_summary
    note a = send_daily_summary_sim [OF Cons.prems(5) Cons.prems(6), of env now]
    have d: "db (send_daily_summary env now w')
          = delete_milestone (milestone_id m) (db (send_daily_summary env now w))"
      by (simp add: send_daily_summary_db Cons.prems(4))
    from Cons.IH [of "send_daily_summary env now w" "send_daily_summary env now w'"]
      Cons.prems(1,2) rest d a show ?thesis
      by (simp add: j Send_daily_summary send_daily_summary_db)
  qed
qed


lemma notify_rows_added:
  "\<exists>added. outbox (notify_rows env now rows w) = outbox w @ added
     \<and> (\<forall>e \<in> set added. \<exists>row t. row \<in> set rows \<and> actual_date (fst row) = Some t
            \<and> fst e = milestone_message env now row t)"
proof (induction rows arbitrary: w)
  case Nil
  then show ?case by simp
next
  case (Cons row rows)
  show ?case
  proof (cases "actual_date (fst row)")
    case None
    then show ?thesis by (simp add: send_milestone_notification_def)
  next
    case (Some t)
    let ?e = "(milestone_message env now row t,
               smtp env (length (outbox w)) (milestone_message env now row t))"
    let ?w1 = "w\<lparr>outbox := outbox w @ [?e]\<rparr>"
    let ?w2 = "?w1\<lparr>db := mark_notified (milestone_id (fst row)) (db ?w1)\<rparr>"
    have step: "notify_rows env now (row # rows) w = notify_rows env now rows ?w2"
      by (simp add: send_milestone_notification_Some [OF Some])
    from Cons.IH [of ?w2] obtain added where
      a: "outbox (notify_rows env now rows ?w2) = outbox ?w2 @ added"
      and b: "\<forall>e \<in> set added. \<exists>row t. row \<in> set rows \<and> actual_date (fst row) = Some t
            \<and> fst e = milestone_message env now row t"
      by blast
    have "outbox (notify_rows env now (row # rows) w) = outbox w @ (?e # added)"
      using a by (simp only: step) simp
    moreover have "\<forall>e \<in> set (?e # added). \<exists>r t. r \<in> set (row # rows)
            \<and> actual_date (fst r) = Some t \<and> fst e = milestone_message env now r t"
      using b Some by (simp del: split_paired_Ex split_paired_All) blast
    ultimately show ?thesis by blast
  qed
qed

lemma alert_rows_added:
  "\<exists>added. outbox (alert_rows env rows w) = outbox w @ added
     \<and> (\<forall>e \<in> set added. \<exists>row. fst e = exception_message env row)"
proof (induction rows arbitrary: w)
  case Nil
  then show ?case by simp
next
  case (Cons row rows)
  let ?e = "(exception_message env row, smtp env (length (outbox w)) (exception_message env row))"
  have s: "outbox (send_exception_alert env row w) = outbox w @ [?e]"
    by (simp add: send_exception_alert_def send_email_def exception_message_def Let_def)
  from Cons.IH [of "send_exception_alert env row w"] obtain added where
    a: "outbox (alert_rows env rows (send_exception_alert env row w))
          = outbox (send_exception_alert env row w) @ added"
    and b: "\<forall>e \<in> set added. \<exists>row. fst e = exception_message env row"
    by blast
  have "outbox (alert_rows env (row # rows) w) = outbox w @ (?e # added)"
    using a s by simp
  moreover have "\<forall>e \<in> set (?e # added). \<exists>row. fst e = exception_message env row"
    using b by (simp del: split_paired_Ex split_paired_All) blast
  ultimately show ?case by blast
qed

lemma send_daily_summary_added:
  "\<exists>e. outbox (send_daily_summary env now w) = outbox w @ [e] \<and> is_summary (fst e)"
  by (simp add: send_daily_summary_def send_daily_summary_email_def send_email_def Let_def
        is_summary_def)

lemma mark_all_notified_unsent_mem:
  "x \<in> set (milestones (mark_all_notified ks d)) \<Longrightarrow> \<not> notification_sent x \<Longrightarrow>
   x \<in> set (milestones d)"
  by (auto simp add: mark_all_notified_def split: if_splits)

lemma run_pending_added:
  "\<forall>x \<in> set (milestones (db w)). \<not> notification_sent x \<longrightarrow> x \<in> set (milestones d0) \<Longrightarrow>
   shipments (db w) = shipments d0 \<Longrightarrow>
   \<exists>added. outbox (run_pending env js w) = outbox w @ added
     \<and> (\<forall>e \<in> set added.
          (\<exists>now row t. (Check_new_milestones, now) \<in> set js
             \<and> fst row \<in> set (milestones d0) \<and> snd row \<in> set (shipments d0)
             \<and> m_shipment_id (fst row) = shipment_id (snd row)
             \<and> milestone_due now (fst row) \<and> actual_date (fst row) = Some t
             \<and> fst e = milestone_message env now row t)
          \<or> (\<exists>row. fst e = exception_message env row)
          \<or> is_summary (fst e))"
proof (induction js arbitrary: w)
  case Nil
  then show ?case by simp
next
  case (Cons j js)
  obtain k now where j: "j = (k, now)" by (cases j)
  let ?P = "\<lambda>J e. (\<exists>now row t. (Check_new_milestones, now) \<in> J
             \<and> fst row \<in> set (milestones d0) \<and> snd row \<in> set (shipments d0)
             \<and> m_shipment_id (fst row) = shipment_id (snd row)
             \<and> milestone_due now (fst row) \<and> actual_date (fst row) = Some t
             \<and> fst e = milestone_message env now row t)
          \<or> (\<exists>row. fst e = exception_message env row)
          \<or> is_summary (fst e)"
  have mono: "?P (set js) e \<Longrightarrow> ?P (set (j # js)) e" for e
    unfolding list.set by blast
  have inv: "\<forall>x \<in> set (milestones (db (run_job env j w))). \<not> notification_sent x
               \<longrightarrow> x \<in> set (milestones d0)"
    using Cons.prems(1)
    by (cases k)
       (auto simp add: j check_new_milestones_db check_exceptions_db send_daily_summary_db
          dest: mark_all_notified_unsent_mem)
  have ships: "shipments (db (run_job env j w)) = shipments d0"
    using Cons.prems(2)
    by (cases k)
       (simp_all add: j check_new_milestones_db check_exceptions_db send_daily_summary_db
          mark_all_notified_def)
  from Cons.IH [OF inv ships] obtain rest where
    r: "outbox (run_pending env js (run_job env j w)) = outbox (run_job env j w) @ rest"
    and rP: "\<forall>e \<in> set rest. ?P (set js) e"
    by blast
  have "\<exists>first. outbox (run_job env j w) = outbox w @ first \<and> (\<forall>e \<in> set first. ?P (set (j # js)) e)"
  proof (cases k)
    case Check_new_milestones
    from notify_rows_added [of env now "new_milestones now (db w)" w] obtain first where
      a: "outbox (check_new_milestones env now w) = outbox w @ first"
      and b: "\<forall>e \<in> set first. \<exists>row t. row \<in> set (new_milestones now (db w))
            \<and> actual_date (fst row) = Some t \<and> fst e = milestone_message env now row t"
      by (auto simp add: check_new_milestones_def)
    have "\<forall>e \<in> set first. ?P (set (j # js)) e"
    proof
      fix e assume "e \<in> set first"
      with b obtain row t where row: "row \<in> set (new_milestones now (db w))"
        and t: "actual_date (fst row) = Some t" and e: "fst e = milestone_message env now row t"
        by blast
      from row have due: "milestone_due now (fst row)" and mem: "fst row \<in> set (milestones (db w))"
        and s: "snd row \<in> set (shipments (db w))"
        and jn: "m_shipment_id (fst row) = shipment_id (snd row)"
        by (auto simp add: set_new_milestones)
      from due have "\<not> notification_sent (fst row)" by (simp add: milestone_due_def)
      with mem Cons.prems(1) have "fst row \<in> set (milestones d0)" by blast
      moreover from s Cons.prems(2) have "snd row \<in> set (shipments d0)" by simp
      moreover have "(Check_new_milestones, now) \<in> set (j # js)"
        by (simp add: j Check_new_milestones)
      ultimately show "?P (set (j # js)) e" using due jn t e by blast
    qed
    with a show ?thesis by (auto simp add: j Check_new_milestones)
  next
    case Check_exceptions
    from alert_rows_added [of env "open_exceptions now (db w)" w] show ?thesis
      by (auto simp add: j Check_exceptions check_exceptions_def)
  next
    case Send_daily_summary
    from send_daily_summary_added [of env now w] show ?thesis
      by (auto simp add: j Send_daily_summary)
  qed
  then obtain first where f: "outbox (run_job env j w) = outbox w @ first"
    and fP: "\<forall>e \<in> set first. ?P (set (j # js)) e"
    by blast
  have "outbox (run_pending env (j # js) w) = outbox w @ (first @ rest)"
    using r f by simp
  moreover have "\<forall>e \<in> set (first @ rest). ?P (set (j # js)) e"
  proof
    fix e assume "e \<in> set (first @ rest)"
    then consider (f) "e \<in> set first" | (r) "e \<in> set rest" by auto
    then show "?P (set (j # js)) e"
    proof cases
      case f
      with fP show ?thesis by (rule bspec)
    next
      case r
      with rP have "?P (set js) e" by (rule bspec)
      then show ?thesis by (rule mono)
    qed
  qed
  ultimately show ?case by blast
qed

text \<open>
  C5. Take a milestone of the store, with milestone identifiers unique in the table as the
  primary key makes them, whose date is 15 minutes or more before the time of every
  milestone check in a list of jobs. Then no poll of these checks fetches it. Every
  delivery attempt that the jobs add to the log is a milestone notification built from a
  fetched row of another milestone (a due row of the table with another identifier), an
  exception alert, or a daily summary; and the notifications and alerts attempted, with
  the relay's answers, are exactly those of the same jobs on the store without this
  milestone, so no mail is sent because of it. It is still in the table after all the jobs,
  and the row with its identifier has the flag it had. Nothing in the loop looks further
  back than the window. (The daily summary counts the milestones dated that day, this
  one among them; it is not a notification of the milestone and is left out of the
  comparison.)
\<close>

theorem stale_milestone_never_notified:
  assumes "m \<in> set (milestones (db w))"
    and "distinct (map milestone_id (milestones (db w)))"
    and "\<forall>j \<in> set js. fst j = Check_new_milestones \<longrightarrow>
           (\<forall>t. actual_date m = Some t \<longrightarrow> t \<le> snd j - 15 * 60)"
  shows "m \<notin> fst ` set (polled_rows env js w)
         \<and> (\<exists>added. outbox (run_pending env js w) = outbox w @ added
              \<and> (\<forall>e \<in> set added.
                   (\<exists>now row t. (Check_new_milestones, now) \<in> set js
                      \<and> fst row \<in> set (milestones (db w)) \<and> snd row \<in> set (shipments (db w))
                      \<and> m_shipment_id (fst row) = shipment_id (snd row)
                      \<and> milestone_due now (fst row) \<and> actual_date (fst row) = Some t
                      \<and> milestone_id (fst row) \<noteq> milestone_id m
                      \<and> fst e = milestone_message env now row t)
                   \<or> (\<exists>row. fst e = exception_message env row)
                   \<or> is_summary (fst e)))
         \<and> notifications_and_alerts (run_pending env js w)
             = notifications_and_alerts
                 (run_pending env js (w\<lparr>db := delete_milestone (milestone_id m) (db w)\<rparr>))
         \<and> m \<in> set (milestones (db (run_pending env js w)))
         \<and> (\<forall>m' \<in> set (milestones (db (run_pending env js w))).
               milestone_id m' = milestone_id m \<longrightarrow> notification_sent m' = notification_sent m)"
proof -
  have stale: "\<forall>j \<in> set js. fst j = Check_new_milestones \<longrightarrow> \<not> date_after_cutoff (snd j) (actual_date m)"
    using assms(3)
    by (auto simp add: date_after_cutoff_def after_cutoff_def interval_15_minutes_def
          split: option.splits)
  note r = stale_run [OF assms(1) assms(2) stale, of env]
  have flag: "\<forall>m' \<in> set (milestones (db (run_pending env js w))).
          milestone_id m' = milestone_id m \<longrightarrow> notification_sent m' = notification_sent m"
    using r same_id_same_row by blast
  have sim: "notifications_and_alerts (run_pending env js w)
             = notifications_and_alerts
                 (run_pending env js (w\<lparr>db := delete_milestone (milestone_id m) (db w)\<rparr>))"
    using stale_run_sim [OF assms(1) assms(2) stale,
        of "w\<lparr>db := delete_milestone (milestone_id m) (db w)\<rparr>" env]
    by (simp add: notifications_and_alerts_def)
  from run_pending_added [of w "db w" env js] obtain added where
    a: "outbox (run_pending env js w) = outbox w @ added"
    and b: "\<forall>e \<in> set added.
          (\<exists>now row t. (Check_new_milestones, now) \<in> set js
             \<and> fst row \<in> set (milestones (db w)) \<and> snd row \<in> set (shipments (db w))
             \<and> m_shipment_id (fst row) = shipment_id (snd row)
             \<and> milestone_due now (fst row) \<and> actual_date (fst row) = Some t
             \<and> fst e = milestone_message env now row t)
          \<or> (\<exists>row. fst e = exception_message env row)
          \<or> is_summary (fst e)"
    by auto
  have other: "milestone_id (fst row) \<noteq> milestone_id m"
    if "(Check_new_milestones, now) \<in> set js" "fst row \<in> set (milestones (db w))"
      "milestone_due now (fst row)" for now row
  proof
    assume same: "milestone_id (fst row) = milestone_id m"
    have "fst row = m" using same_id_same_row [OF assms(2) assms(1) that(2) same] .
    moreover from stale that(1) have "\<not> date_after_cutoff now (actual_date m)" by force
    ultimately show False using that(3) by (simp add: milestone_due_def)
  qed
  have "\<forall>e \<in> set added.
          (\<exists>now row t. (Check_new_milestones, now) \<in> set js
             \<and> fst row \<in> set (milestones (db w)) \<and> snd row \<in> set (shipments (db w))
             \<and> m_shipment_id (fst row) = shipment_id (snd row)
             \<and> milestone_due now (fst row) \<and> actual_date (fst row) = Some t
             \<and> milestone_id (fst row) \<noteq> milestone_id m
             \<and> fst e = milestone_message env now row t)
          \<or> (\<exists>row. fst e = exception_message env row)
          \<or> is_summary (fst e)"
  proof
    fix e assume "e \<in> set added"
    with b consider
      (m) now row t where "(Check_new_milestones, now) \<in> set js"
        "fst row \<in> set (milestones (db w))" "snd row \<in> set (shipments (db w))"
        "m_shipment_id (fst row) = shipment_id (snd row)"
        "milestone_due now (fst row)" "actual_date (fst row) = Some t"
        "fst e = milestone_message env now row t"
      | (x) "\<exists>row. fst e = exception_message env row"
      | (s) "is_summary (fst e)"
      by blast
    then show "(\<exists>now row t. (Check_new_milestones, now) \<in> set js
             \<and> fst row \<in> set (milestones (db w)) \<and> snd row \<in> set (shipments (db w))
             \<and> m_shipment_id (fst row) = shipment_id (snd row)
             \<and> milestone_due now (fst row) \<and> actual_date (fst row) = Some t
             \<and> milestone_id (fst row) \<noteq> milestone_id m
             \<and> fst e = milestone_message env now row t)
          \<or> (\<exists>row. fst e = exception_message env row)
          \<or> is_summary (fst e)"
    proof cases
      case m
      from other [OF m(1) m(2) m(5)] m show ?thesis by blast
    next
      case x
      then show ?thesis by blast
    next
      case s
      then show ?thesis by blast
    qed
  qed
  with a have prov: "\<exists>added. outbox (run_pending env js w) = outbox w @ added
              \<and> (\<forall>e \<in> set added.
                   (\<exists>now row t. (Check_new_milestones, now) \<in> set js
                      \<and> fst row \<in> set (milestones (db w)) \<and> snd row \<in> set (shipments (db w))
                      \<and> m_shipment_id (fst row) = shipment_id (snd row)
                      \<and> milestone_due now (fst row) \<and> actual_date (fst row) = Some t
                      \<and> milestone_id (fst row) \<noteq> milestone_id m
                      \<and> fst e = milestone_message env now row t)
                   \<or> (\<exists>row. fst e = exception_message env row)
                   \<or> is_summary (fst e))"
    by blast
  from r flag sim prov show ?thesis by blast
qed


theorem stale_milestone_never_notified_witness:
  "stale_milestone \<in> set (milestones (db example_worker))
   \<and> distinct (map milestone_id (milestones (db example_worker)))
   \<and> actual_date stale_milestone = Some 9000 \<and> (9000 :: int) \<le> 10000 - 15 * 60
   \<and> stale_milestone \<in> set (milestones (db (run example_env 10000 10001
         [(Check_new_milestones, 10300), (Check_exceptions, 10301)] example_worker)))
   \<and> notification_sent stale_milestone = False
   \<and> map (\<lambda>e. msg_Subject (fst e)) (outbox (run example_env 10000 10001
         [(Check_new_milestones, 10300), (Check_exceptions, 10301)] example_worker))
       = [''Milestone Update: Vessel Departed - BK1001'',
          [CHR 0xF0, CHR 0x9F, CHR 0x9A, CHR 0xA8] @ '' Exception Alert [CRITICAL]: Port strike - BK1001'',
          [CHR 0xF0, CHR 0x9F, CHR 0x9A, CHR 0xA8] @ '' Exception Alert [CRITICAL]: Port strike - BK1001'']
   \<and> notifications_and_alerts (run example_env 10000 10001
         [(Check_new_milestones, 10300), (Check_exceptions, 10301)] example_worker)
       = notifications_and_alerts (run example_env 10000 10001
           [(Check_new_milestones, 10300), (Check_exceptions, 10301)]
           (example_worker\<lparr>db := delete_milestone 8 (db example_worker)\<rparr>))"
proof -
  have h1: "stale_milestone \<in> set (milestones (db example_worker))"
    by (simp add: example_defs2)
  have h2: "distinct (map milestone_id (milestones (db example_worker)))"
    by (simp add: example_defs2)
  have h3: "\<forall>j \<in> set [(Check_new_milestones, 10000 :: int), (Check_exceptions, 10001),
                       (Check_new_milestones, 10300), (Check_exceptions, 10301)].
              fst j = Check_new_milestones \<longrightarrow>
              (\<forall>t. actual_date stale_milestone = Some t \<longrightarrow> t \<le> snd j - 15 * 60)"
    by (simp add: example_defs2)
  have h4: "actual_date stale_milestone = Some 9000" "notification_sent stale_milestone = False"
    "milestone_id stale_milestone = 8"
    by (simp_all add: example_defs2)
  have rows: "new_milestones 10000 (db example_worker) = [(example_milestone, example_shipment)]"
    by (simp add: example_defs2 poll_defs)
  have first: "check_new_milestones example_env 10000 example_worker
      = \<lparr>db = example_store\<lparr>milestones := [example_milestone\<lparr>notification_sent := True\<rparr>,
                                              stale_milestone]\<rparr>,
         outbox = [(milestone_message example_env 10000 (example_milestone, example_shipment) 9700,
                    False)]\<rparr>"
    by (simp only: check_new_milestones_def rows)
       (simp add: send_milestone_notification_def send_email_def Let_def example_defs2
          mark_notified_def milestone_message_def)
  have subjects: "map (\<lambda>e. msg_Subject (fst e)) (outbox (run example_env 10000 10001
         [(Check_new_milestones, 10300), (Check_exceptions, 10301)] example_worker))
       = [''Milestone Update: Vessel Departed - BK1001'',
          [CHR 0xF0, CHR 0x9F, CHR 0x9A, CHR 0xA8] @ '' Exception Alert [CRITICAL]: Port strike - BK1001'',
          [CHR 0xF0, CHR 0x9F, CHR 0x9A, CHR 0xA8] @ '' Exception Alert [CRITICAL]: Port strike - BK1001'']"
    by (simp add: run_def first)
       (simp add: check_new_milestones_def check_exceptions_def poll_defs open_exceptions_def
          exception_due_def example_defs2 send_exception_alert_def send_email_def Let_def
          milestone_message_def milestone_subject_def exception_subject_def
          format_milestone_name_def str_title_def str_replace_def ascii_defs fstr_def)
  from stale_milestone_never_notified [OF h1 h2 h3, of example_env] h1 h2 h4 subjects
  show ?thesis by (simp add: run_def)
qed

section \<open>Exception alerts are sent again\<close>

lemma send_exception_alert_outbox:
  "map fst (outbox (send_exception_alert env row w)) = map fst (outbox w) @ [exception_message env row]"
  by (simp add: send_exception_alert_def send_email_outbox exception_message_def)

lemma alert_rows_outbox:
  "map fst (outbox (alert_rows env rows w)) = map fst (outbox w) @ map (exception_message env) rows"
  by (induction rows arbitrary: w) (simp_all add: send_exception_alert_outbox)

lemma set_open_exceptions:
  "set (open_exceptions now d) =
     {(e, s). e \<in> set (exceptions d) \<and> s \<in> set (shipments d)
              \<and> e_shipment_id e = shipment_id s \<and> exception_due now e}"
  by (auto simp add: open_exceptions_def)

lemma count_list_mem: "x \<in> set xs \<Longrightarrow> 1 \<le> count_list xs x"
  using count_list_0_iff [of xs x] by simp

text \<open>
  C4. \<open>check_exceptions\<close> leaves the store as it was. Two runs one after the other add to
  the log the alerts of the first poll and then the alerts of the second. An exception
  with status \<open>OPEN\<close>, created less than 15 minutes before either run and joined to its
  shipment, is in both polls, so its alert is sent twice: the log holds it at least two
  times more than before.
\<close>

theorem check_exceptions_resends:
  "db (check_exceptions env now w) = db w
   \<and> map fst (outbox (check_exceptions env now' (check_exceptions env now w))) =
       map fst (outbox w) @ map (exception_message env) (open_exceptions now (db w))
       @ map (exception_message env) (open_exceptions now' (db w))
   \<and> (\<forall>e \<in> set (exceptions (db w)). \<forall>s \<in> set (shipments (db w)).
        status e = ''OPEN'' \<and> now - 15 * 60 < created_at e \<and> now' - 15 * 60 < created_at e
        \<and> e_shipment_id e = shipment_id s \<longrightarrow>
          (e, s) \<in> set (open_exceptions now (db w))
          \<and> (e, s) \<in> set (open_exceptions now' (db w))
          \<and> count_list (map fst (outbox w)) (exception_message env (e, s)) + 2
              \<le> count_list (map fst (outbox (check_exceptions env now' (check_exceptions env now w))))
                   (exception_message env (e, s)))"
proof -
  have a: "db (check_exceptions env now w) = db w" by (rule check_exceptions_db)
  have b: "map fst (outbox (check_exceptions env now' (check_exceptions env now w))) =
       map fst (outbox w) @ map (exception_message env) (open_exceptions now (db w))
       @ map (exception_message env) (open_exceptions now' (db w))"
    by (simp add: check_exceptions_def alert_rows_outbox alert_rows_db)
  have c: "\<forall>e \<in> set (exceptions (db w)). \<forall>s \<in> set (shipments (db w)).
        status e = ''OPEN'' \<and> now - 15 * 60 < created_at e \<and> now' - 15 * 60 < created_at e
        \<and> e_shipment_id e = shipment_id s \<longrightarrow>
          (e, s) \<in> set (open_exceptions now (db w))
          \<and> (e, s) \<in> set (open_exceptions now' (db w))
          \<and> count_list (map fst (outbox w)) (exception_message env (e, s)) + 2
              \<le> count_list (map fst (outbox (check_exceptions env now' (check_exceptions env now w))))
                   (exception_message env (e, s))"
  proof (intro ballI impI)
    fix e s
    assume e: "e \<in> set (exceptions (db w))" and s: "s \<in> set (shipments (db w))"
      and h: "status e = ''OPEN'' \<and> now - 15 * 60 < created_at e \<and> now' - 15 * 60 < created_at e
              \<and> e_shipment_id e = shipment_id s"
    from e s h have r1: "(e, s) \<in> set (open_exceptions now (db w))"
      by (simp add: set_open_exceptions exception_due_def after_cutoff_def interval_15_minutes_def)
    from e s h have r2: "(e, s) \<in> set (open_exceptions now' (db w))"
      by (simp add: set_open_exceptions exception_due_def after_cutoff_def interval_15_minutes_def)
    from r1 have c1: "1 \<le> count_list (map (exception_message env) (open_exceptions now (db w)))
                          (exception_message env (e, s))"
      by (intro count_list_mem) force
    from r2 have c2: "1 \<le> count_list (map (exception_message env) (open_exceptions now' (db w)))
                          (exception_message env (e, s))"
      by (intro count_list_mem) force
    from c1 c2 have "count_list (map fst (outbox w)) (exception_message env (e, s)) + 2
              \<le> count_list (map fst (outbox (check_exceptions env now' (check_exceptions env now w))))
                   (exception_message env (e, s))"
      by (simp add: b)
    with r1 r2 show "(e, s) \<in> set (open_exceptions now (db w))
          \<and> (e, s) \<in> set (open_exceptions now' (db w))
          \<and> count_list (map fst (outbox w)) (exception_message env (e, s)) + 2
              \<le> count_list (map fst (outbox (check_exceptions env now' (check_exceptions env now w))))
                   (exception_message env (e, s))"
      by blast
  qed
  from a b c show ?thesis by blast
qed

theorem check_exceptions_resends_witness:
  "example_exception ''CRITICAL'' \<in> set (exceptions (db example_worker))
   \<and> example_shipment \<in> set (shipments (db example_worker))
   \<and> status (example_exception ''CRITICAL'') = ''OPEN''
   \<and> (10000 :: int) - 15 * 60 < created_at (example_exception ''CRITICAL'')
   \<and> (10300 :: int) - 15 * 60 < created_at (example_exception ''CRITICAL'')
   \<and> e_shipment_id (example_exception ''CRITICAL'') = shipment_id example_shipment
   \<and> 2 \<le> count_list
            (map fst (outbox (check_exceptions example_env 10300
                                (check_exceptions example_env 10000 example_worker))))
            (exception_message example_env (example_exception ''CRITICAL'', example_shipment))"
proof -
  have h: "example_exception ''CRITICAL'' \<in> set (exceptions (db example_worker))"
    "example_shipment \<in> set (shipments (db example_worker))"
    "status (example_exception ''CRITICAL'') = ''OPEN''"
    "(10000 :: int) - 15 * 60 < created_at (example_exception ''CRITICAL'')"
    "(10300 :: int) - 15 * 60 < created_at (example_exception ''CRITICAL'')"
    "e_shipment_id (example_exception ''CRITICAL'') = shipment_id example_shipment"
    by (simp_all add: example_defs2)
  from check_exceptions_resends [of example_env 10000 example_worker 10300] h
  show ?thesis by force
qed

section \<open>The daily summary\<close>






end
